theory Spec2Isabelle
  imports Complex_Main
begin

section \<open>Floating-point values with their special cases\<close>

text \<open>
  The services compute on pandas and numpy float64 columns. Finite values are modelled
  as exact reals (the sign of zero is not modelled, and rounding is modelled in one
  place only, the mean behind \<open>expected_shortfall\<close>); what is modelled throughout
  is where the code's arithmetic leaves the finite values: a division by zero gives an
  infinity or NaN instead of raising, NaN propagates, and every comparison with NaN is
  false.
\<close>

datatype fval = Fin real | PInf | NInf | NaN

fun is_nan :: "fval \<Rightarrow> bool" where
  "is_nan NaN = True"
| "is_nan _ = False"

fun fneg :: "fval \<Rightarrow> fval" where
  "fneg (Fin x) = Fin (- x)"
| "fneg PInf = NInf"
| "fneg NInf = PInf"
| "fneg NaN = NaN"

fun fadd :: "fval \<Rightarrow> fval \<Rightarrow> fval" where
  "fadd (Fin x) (Fin y) = Fin (x + y)"
| "fadd NaN _ = NaN"
| "fadd _ NaN = NaN"
| "fadd PInf NInf = NaN"
| "fadd NInf PInf = NaN"
| "fadd PInf _ = PInf"
| "fadd _ PInf = PInf"
| "fadd NInf _ = NInf"
| "fadd _ NInf = NInf"

definition fsub :: "fval \<Rightarrow> fval \<Rightarrow> fval" where
  "fsub a b = fadd a (fneg b)"

fun fdiv :: "fval \<Rightarrow> fval \<Rightarrow> fval" where
  "fdiv (Fin x) (Fin y) =
     (if y = 0 then (if x = 0 then NaN else if 0 < x then PInf else NInf)
      else Fin (x / y))"
| "fdiv NaN _ = NaN"
| "fdiv _ NaN = NaN"
| "fdiv (Fin x) PInf = Fin 0"
| "fdiv (Fin x) NInf = Fin 0"
| "fdiv PInf (Fin y) = (if 0 \<le> y then PInf else NInf)"
| "fdiv NInf (Fin y) = (if 0 \<le> y then NInf else PInf)"
| "fdiv PInf PInf = NaN"
| "fdiv PInf NInf = NaN"
| "fdiv NInf PInf = NaN"
| "fdiv NInf NInf = NaN"

fun fabs :: "fval \<Rightarrow> fval" where
  "fabs (Fin x) = Fin \<bar>x\<bar>"
| "fabs PInf = PInf"
| "fabs NInf = PInf"
| "fabs NaN = NaN"

text \<open>\<open>fgt a b\<close> is the float comparison \<open>a > b\<close>, \<open>fle a b\<close> is \<open>a <= b\<close>.\<close>

fun fgt :: "fval \<Rightarrow> fval \<Rightarrow> bool" where
  "fgt (Fin x) (Fin y) = (y < x)"
| "fgt PInf (Fin y) = True"
| "fgt PInf NInf = True"
| "fgt (Fin x) NInf = True"
| "fgt _ _ = False"

fun fle :: "fval \<Rightarrow> fval \<Rightarrow> bool" where
  "fle (Fin x) (Fin y) = (x \<le> y)"
| "fle NaN _ = False"
| "fle _ NaN = False"
| "fle NInf _ = True"
| "fle _ PInf = True"
| "fle _ _ = False"

text \<open>The mean of a numpy array: the sum divided by the count; NaN on no element.\<close>

definition fsum :: "fval list \<Rightarrow> fval" where
  "fsum xs = foldl fadd (Fin 0) xs"

definition fmean :: "fval list \<Rightarrow> fval" where
  "fmean xs = fdiv (fsum xs) (Fin (real (length xs)))"

section \<open>Errors\<close>

datatype error =
    ZeroDivisionError
  | ValueError string
  | IndexError
  | LibraryError string

section \<open>Risk classification (\<open>PortfolioAnalyzer.assess_portfolio_risk\<close>)\<close>

record risk_assessment =
  risk_score :: int
  risk_level :: string
  risk_factors :: "string list"
  recommendations :: "string list"

text \<open>The local variables \<open>risk_score\<close>, \<open>risk_level\<close> and \<open>risk_factors\<close>.\<close>

record risk_acc =
  acc_score :: int
  acc_level :: string
  acc_factors :: "string list"

text \<open>\<open>portfolio_risk.get(key, 0)\<close> on the metrics dict.\<close>

definition dict_get :: "(string \<times> fval) list \<Rightarrow> string \<Rightarrow> fval" where
  "dict_get d k = (case map_of d k of None \<Rightarrow> Fin 0 | Some v \<Rightarrow> v)"

definition bump :: "int \<Rightarrow> string \<Rightarrow> risk_acc \<Rightarrow> risk_acc" where
  "bump n msg a = a\<lparr>acc_score := acc_score a + n, acc_factors := acc_factors a @ [msg]\<rparr>"

definition remark :: "string \<Rightarrow> risk_acc \<Rightarrow> risk_acc" where
  "remark msg a = a\<lparr>acc_factors := acc_factors a @ [msg]\<rparr>"

definition volatility_step :: "fval \<Rightarrow> risk_acc \<Rightarrow> risk_acc" where
  "volatility_step volatility a =
     (if fgt volatility (Fin 0.4)
        then (bump 3 ''High volatility (>40%)'' a)\<lparr>acc_level := ''aggressive''\<rparr>
      else if fgt volatility (Fin 0.25)
        then bump 2 ''Moderate-high volatility (25-40%)'' a
      else if fgt volatility (Fin 0.15)
        then bump 1 ''Moderate volatility (15-25%)'' a
      else remark ''Low volatility (<15%)'' a)"

definition drawdown_step :: "fval \<Rightarrow> risk_acc \<Rightarrow> risk_acc" where
  "drawdown_step max_drawdown a =
     (if fgt max_drawdown (Fin 0.35)
        then (bump 3 ''Very high maximum drawdown (>35%)'' a)\<lparr>acc_level := ''aggressive''\<rparr>
      else if fgt max_drawdown (Fin 0.20)
        then bump 2 ''High maximum drawdown (20-35%)'' a
      else if fgt max_drawdown (Fin 0.10)
        then bump 1 ''Moderate maximum drawdown (10-20%)'' a
      else remark ''Low maximum drawdown (<10%)'' a)"

text \<open>
  \<open>max(sector_allocation.values()) / sum(sector_allocation.values()) if sector_allocation
  else 0\<close>: the values are the holdings' Python numbers, so a zero sum raises.
\<close>

definition max_sector_weight :: "(string \<times> real) list \<Rightarrow> error + real" where
  "max_sector_weight sector_allocation =
     (if sector_allocation = [] then Inr 0
      else let vs = map snd sector_allocation in
        if sum_list vs = 0 then Inl ZeroDivisionError
        else Inr (foldl max (hd vs) (tl vs) / sum_list vs))"

definition sector_step :: "real \<Rightarrow> risk_acc \<Rightarrow> risk_acc" where
  "sector_step w a =
     (if w > 0.5 then bump 2 ''High sector concentration (>50% in one sector)'' a
      else if w > 0.3 then bump 1 ''Moderate sector concentration (30-50% in one sector)'' a
      else remark ''Well-diversified across sectors'' a)"

text \<open>\<open>np.triu_indices_from(m, k=1)\<close>: the entries strictly above the diagonal, row by row.\<close>

fun triu_from :: "nat \<Rightarrow> fval list list \<Rightarrow> fval list" where
  "triu_from i [] = []"
| "triu_from i (row # rows) = drop (Suc i) row @ triu_from (Suc i) rows"

definition avg_correlation :: "fval list list \<Rightarrow> fval" where
  "avg_correlation correlation_matrix = fmean (triu_from 0 correlation_matrix)"

definition correlation_step :: "fval \<Rightarrow> risk_acc \<Rightarrow> risk_acc" where
  "correlation_step c a =
     (if fgt c (Fin 0.7) then bump 2 ''High correlation between holdings (>0.7)'' a
      else if fgt c (Fin 0.5) then bump 1 ''Moderate correlation between holdings (0.5-0.7)'' a
      else remark ''Low correlation between holdings (<0.5)'' a)"

definition sharpe_step :: "fval \<Rightarrow> risk_acc \<Rightarrow> risk_acc" where
  "sharpe_step sharpe_ratio a =
     (if fgt sharpe_ratio (Fin 1.0) then remark ''Excellent risk-adjusted returns (Sharpe > 1.0)'' a
      else if fgt sharpe_ratio (Fin 0.5) then remark ''Good risk-adjusted returns (Sharpe 0.5-1.0)'' a
      else if fgt sharpe_ratio (Fin 0) then remark ''Positive risk-adjusted returns (Sharpe 0-0.5)'' a
      else bump 1 ''Poor risk-adjusted returns (Sharpe < 0)'' a)"

definition level_step :: "risk_acc \<Rightarrow> risk_acc" where
  "level_step a =
     (if acc_score a \<ge> 6 then a\<lparr>acc_level := ''aggressive''\<rparr>
      else if acc_score a \<ge> 3 then a\<lparr>acc_level := ''moderate''\<rparr>
      else a\<lparr>acc_level := ''conservative''\<rparr>)"

subsection \<open>\<open>generate_risk_recommendations\<close>\<close>

fun starts_with :: "string \<Rightarrow> string \<Rightarrow> bool" where
  "starts_with [] _ = True"
| "starts_with (p # ps) [] = False"
| "starts_with (p # ps) (c # cs) = (p = c \<and> starts_with ps cs)"

fun str_contains :: "string \<Rightarrow> string \<Rightarrow> bool" where
  "str_contains needle [] = (needle = [])"
| "str_contains needle (c # cs) = (starts_with needle (c # cs) \<or> str_contains needle cs)"

fun join_comma :: "string list \<Rightarrow> string" where
  "join_comma [] = []"
| "join_comma [s] = s"
| "join_comma (s # t # ss) = s @ '', '' @ join_comma (t # ss)"

text \<open>\<open>str(risk_factors)\<close>: Python's rendering of a list of quote-free strings.\<close>

definition py_str_list :: "string list \<Rightarrow> string" where
  "py_str_list xs =
     ''['' @ join_comma (map (\<lambda>s. [CHR 0x27] @ s @ [CHR 0x27]) xs) @ '']''"

definition generate_risk_recommendations :: "string list \<Rightarrow> string \<Rightarrow> string list" where
  "generate_risk_recommendations factors level =
     (let s = py_str_list factors in
      (if str_contains ''High volatility'' s
         then [''Consider adding defensive stocks or bonds to reduce volatility''] else []) @
      (if str_contains ''High maximum drawdown'' s
         then [''Implement stop-loss strategies to limit downside risk''] else []) @
      (if str_contains ''High sector concentration'' s
         then [''Diversify across different sectors to reduce concentration risk''] else []) @
      (if str_contains ''High correlation'' s
         then [''Add uncorrelated assets (bonds, commodities, international stocks)''] else []) @
      (if str_contains ''Poor risk-adjusted returns'' s
         then [''Review portfolio allocation and consider rebalancing''] else []) @
      (if level = ''aggressive''
         then [''Consider reducing position sizes or adding defensive assets'']
       else if level = ''conservative''
         then [''Portfolio appears well-balanced for conservative investors'']
       else []))"

definition assess_portfolio_risk ::
  "(string \<times> fval) list \<Rightarrow> (string \<times> real) list \<Rightarrow> fval list list \<Rightarrow> error + risk_assessment"
where
  "assess_portfolio_risk portfolio_risk sector_allocation correlation_matrix =
     (let a0 = \<lparr>acc_score = 0, acc_level = ''moderate'', acc_factors = []\<rparr>;
          a1 = volatility_step (dict_get portfolio_risk ''volatility'') a0;
          a2 = drawdown_step (fabs (dict_get portfolio_risk ''max_drawdown'')) a1
      in case max_sector_weight sector_allocation of
           Inl e \<Rightarrow> Inl e
         | Inr w \<Rightarrow>
            (let a3 = sector_step w a2;
                 a4 = correlation_step (avg_correlation correlation_matrix) a3;
                 a5 = sharpe_step (dict_get portfolio_risk ''sharpe_ratio'') a4;
                 a6 = level_step a5
             in Inr \<lparr>risk_score = acc_score a6,
                     risk_level = acc_level a6,
                     risk_factors = acc_factors a6,
                     recommendations =
                       generate_risk_recommendations (acc_factors a6) (acc_level a6)\<rparr>))"

text \<open>The thresholds as the specification words them (section 3, the invariant).\<close>

definition spec_risk_level :: "int \<Rightarrow> string" where
  "spec_risk_level score =
     (if score \<ge> 6 then ''aggressive'' else if score \<ge> 3 then ''moderate''
      else ''conservative'')"

section \<open>Single-series risk metrics (\<open>PortfolioAnalyzer.calculate_risk_metrics\<close>)\<close>

definition risk_free_rate :: real where
  "risk_free_rate = 0.04"

definition mean :: "real list \<Rightarrow> real" where
  "mean xs = sum_list xs / real (length xs)"

text \<open>
  \<open>Series.var()\<close> and \<open>Series.std()\<close>: the sample estimators (one degree of freedom
  removed), NaN on fewer than two observations.
\<close>

definition sq_dev :: "real list \<Rightarrow> real" where
  "sq_dev xs = sum_list (map (\<lambda>x. (x - mean xs)\<^sup>2) xs)"


definition std :: "real list \<Rightarrow> fval" where
  "std xs = (if length xs < 2 then NaN else Fin (sqrt (sq_dev xs / real (length xs - 1))))"

fun fscale :: "fval \<Rightarrow> real \<Rightarrow> fval" where
  "fscale (Fin x) c = Fin (x * c)"
| "fscale PInf c = (if 0 < c then PInf else if c < 0 then NInf else NaN)"
| "fscale NInf c = (if 0 < c then NInf else if c < 0 then PInf else NaN)"
| "fscale NaN c = NaN"

text \<open>\<open>(1 + returns).cumprod()\<close> and \<open>.expanding().max()\<close>.\<close>

fun cumprod_from :: "real \<Rightarrow> real list \<Rightarrow> real list" where
  "cumprod_from acc [] = []"
| "cumprod_from acc (x # xs) = (acc * x) # cumprod_from (acc * x) xs"

definition cumulative_returns :: "real list \<Rightarrow> real list" where
  "cumulative_returns returns = cumprod_from 1 (map (\<lambda>r. 1 + r) returns)"

fun cummax_from :: "real \<Rightarrow> real list \<Rightarrow> real list" where
  "cummax_from m [] = []"
| "cummax_from m (x # xs) = max m x # cummax_from (max m x) xs"

fun expanding_max :: "real list \<Rightarrow> real list" where
  "expanding_max [] = []"
| "expanding_max (x # xs) = x # cummax_from x xs"

definition drawdown :: "real list \<Rightarrow> fval list" where
  "drawdown returns =
     (let cumulative = cumulative_returns returns;
          rolling_max = expanding_max cumulative
      in map2 (\<lambda>c m. fdiv (Fin (c - m)) (Fin m)) cumulative rolling_max)"

text \<open>\<open>Series.min()\<close> skips NaN entries and is NaN when nothing is left.\<close>

definition fmin2 :: "fval \<Rightarrow> fval \<Rightarrow> fval" where
  "fmin2 a b = (if is_nan a then b else if is_nan b then a else if fle a b then a else b)"

definition fmin_skipna :: "fval list \<Rightarrow> fval" where
  "fmin_skipna xs = foldr fmin2 xs NaN"

definition max_drawdown :: "real list \<Rightarrow> fval" where
  "max_drawdown returns = fmin_skipna (drawdown returns)"

text \<open>
  \<open>np.percentile(a, q)\<close> with the default linear interpolation between the two order
  statistics around the position \<open>(n - 1) * q / 100\<close>; NaN on an empty array.
\<close>

definition percentile :: "real list \<Rightarrow> real \<Rightarrow> fval" where
  "percentile a q =
     (if a = [] then NaN
      else let s = sort a;
               n = length a;
               pos = real (n - 1) * (q / 100);
               lo = nat \<lfloor>pos\<rfloor>;
               hi = min (lo + 1) (n - 1)
           in Fin (s ! lo + (s ! hi - s ! lo) * (pos - real lo)))"

text \<open>
  The selection \<open>returns[returns <= var_95]\<close> and its \<open>mean()\<close>. All values here are
  float64, and the last bit of this mean decides how it compares with \<open>var_95\<close>, so this
  one mean is taken as float64 computes it: every addition and the final division is
  rounded to the nearest float64 (53 significant bits, a tie going to the neighbour with
  the even last bit; subnormal numbers and overflow are left out).
\<close>

definition round_half_even :: "real \<Rightarrow> int" where
  "round_half_even y =
     (let f = \<lfloor>y\<rfloor>; d = y - of_int f
      in if d < 1 / 2 then f else if 1 / 2 < d then f + 1 else if even f then f else f + 1)"

definition ulp64 :: "real \<Rightarrow> real" where
  "ulp64 x = 2 powi (\<lfloor>log 2 \<bar>x\<bar>\<rfloor> - 52)"

definition fl64 :: "real \<Rightarrow> real" where
  "fl64 x = (if x = 0 then 0 else of_int (round_half_even (x / ulp64 x)) * ulp64 x)"

definition add64 :: "real \<Rightarrow> real \<Rightarrow> real" where
  "add64 a b = fl64 (a + b)"

text \<open>
  \<open>Series.mean()\<close> divides the sum of the values by their number. The sum is numpy's:
  fewer than 8 values are added from left to right; up to 128 values are added into
  eight running sums, one for each position modulo 8, which are then combined in pairs,
  and the values after the last full block of 8 are added one by one; a longer array is
  cut in two (the first part a multiple of 8 long) and the sums of the parts are added.
  (With the optional package bottleneck, pandas adds from left to right throughout; on
  fewer than 8 values there is no difference.)
\<close>

fun add_blocks :: "nat \<Rightarrow> real list \<Rightarrow> real list \<Rightarrow> real list" where
  "add_blocks 0 r xs = r"
| "add_blocks (Suc k) r xs = add_blocks k (map2 add64 r (take 8 xs)) (drop 8 xs)"

definition block_sum :: "real list \<Rightarrow> real" where
  "block_sum xs =
     (let n = length xs;
          r = add_blocks (n div 8 - 1) (take 8 xs) (drop 8 xs);
          res = add64 (add64 (add64 (r ! 0) (r ! 1)) (add64 (r ! 2) (r ! 3)))
                      (add64 (add64 (r ! 4) (r ! 5)) (add64 (r ! 6) (r ! 7)))
      in foldl add64 res (drop (8 * (n div 8)) xs))"

function pairwise_sum :: "real list \<Rightarrow> real" where
  "pairwise_sum xs =
     (if length xs < 8 then foldl add64 0 xs
      else if length xs \<le> 128 then block_sum xs
      else add64 (pairwise_sum (take (length xs div 2 - (length xs div 2) mod 8) xs))
                 (pairwise_sum (drop (length xs div 2 - (length xs div 2) mod 8) xs)))"
  by pat_completeness auto
termination
  by (relation "measure length") auto

definition float_mean :: "real list \<Rightarrow> real" where
  "float_mean xs = fl64 (pairwise_sum xs / real (length xs))"

text \<open>The mean of an empty selection is NaN.\<close>

definition expected_shortfall :: "real list \<Rightarrow> fval \<Rightarrow> fval" where
  "expected_shortfall returns var_95 =
     (let tail = filter (\<lambda>r. fle (Fin r) var_95) returns
      in if tail = [] then NaN else Fin (float_mean tail))"

text \<open>
  \<open>scipy.stats.skew\<close> and \<open>scipy.stats.kurtosis\<close> with their defaults: the biased
  central-moment estimators, kurtosis in Fisher's form; NaN on a series without spread.
\<close>

definition central_moment :: "nat \<Rightarrow> real list \<Rightarrow> real" where
  "central_moment k xs = mean (map (\<lambda>x. (x - mean xs) ^ k) xs)"

definition skew :: "real list \<Rightarrow> fval" where
  "skew xs =
     (let m2 = central_moment 2 xs
      in if xs = [] \<or> m2 = 0 then NaN else Fin (central_moment 3 xs / (m2 * sqrt m2)))"

definition kurtosis :: "real list \<Rightarrow> fval" where
  "kurtosis xs =
     (let m2 = central_moment 2 xs
      in if xs = [] \<or> m2 = 0 then NaN else Fin (central_moment 4 xs / m2\<^sup>2 - 3))"

definition sharpe_ratio :: "real list \<Rightarrow> fval \<Rightarrow> fval" where
  "sharpe_ratio returns volatility =
     (let excess_returns = map (\<lambda>r. r - risk_free_rate / 252) returns
      in if fgt volatility (Fin 0) then fdiv (Fin (mean excess_returns * 252)) volatility
         else Fin 0)"

text \<open>The result dict, as the list of its items in insertion order; \<open>{}\<close> is \<open>[]\<close>.\<close>

definition calculate_risk_metrics :: "real list \<Rightarrow> (string \<times> fval) list" where
  "calculate_risk_metrics returns =
     (if length returns < 30 then []
      else let mean_return = Fin (mean returns * 252);
               volatility = fscale (std returns) (sqrt 252);
               var_95 = percentile returns 5
           in [(''mean_return'', mean_return),
               (''volatility'', volatility),
               (''sharpe_ratio'', sharpe_ratio returns volatility),
               (''max_drawdown'', max_drawdown returns),
               (''var_95'', var_95),
               (''expected_shortfall'', expected_shortfall returns var_95),
               (''skewness'', skew returns),
               (''kurtosis'', kurtosis returns),
               (''beta'', Fin 1.0)])"

subsection \<open>A sample return series\<close>

text \<open>
  Three returns of 0.1 followed by twenty-seven of 0.2, as float64 holds them: the float64
  nearest to 0.1 is \<open>3602879701896397 / 2 ^ 55\<close>, the one nearest to 0.2 is twice that.
\<close>

definition tenth :: real where
  "tenth = 3602879701896397 / 2 ^ 55"

definition tied_returns :: "real list" where
  "tied_returns = replicate 3 tenth @ replicate 27 (2 * tenth)"

section \<open>Diversification ratio (\<open>PortfolioAnalyzer.calculate_portfolio_metrics\<close>)\<close>





section \<open>Indicator augmentation (\<open>StockPredictor.get_stock_data\<close>)\<close>

text \<open>
  The raw table is generated from a random source inside \<open>get_stock_data\<close>; here it is the
  input, one bar per row, the index being the day number. All raw fields are finite.
\<close>

record price_bar =
  bar_date :: int
  bar_open :: real
  bar_high :: real
  bar_low :: real
  bar_close :: real
  bar_volume :: real

record indicator_row =
  row_date :: int
  Open :: real
  High :: real
  Low :: real
  Close :: real
  Volume :: real
  SMA_20 :: fval
  SMA_50 :: fval
  RSI :: fval
  MACD :: fval
  BB_upper :: fval
  BB_middle :: fval
  BB_lower :: fval
  Price_Change :: fval
  Volume_Change :: fval

text \<open>
  \<open>Series.rolling(window=w)\<close>: the last \<open>w\<close> entries up to and including row \<open>i\<close>; the
  aggregate is NaN while fewer than \<open>w\<close> rows are available.
\<close>

definition window :: "nat \<Rightarrow> real list \<Rightarrow> nat \<Rightarrow> real list" where
  "window w xs i = take w (drop (i + 1 - w) xs)"

definition rolling_mean :: "nat \<Rightarrow> real list \<Rightarrow> nat \<Rightarrow> fval" where
  "rolling_mean w xs i = (if i + 1 < w then NaN else Fin (mean (window w xs i)))"

definition rolling_std :: "nat \<Rightarrow> real list \<Rightarrow> nat \<Rightarrow> fval" where
  "rolling_std w xs i = (if i + 1 < w then NaN else std (window w xs i))"

text \<open>
  \<open>delta = Close.diff()\<close> is NaN in row 0. \<open>delta.where(delta > 0, 0)\<close> keeps the
  positive differences and puts 0 elsewhere, also in row 0, where the comparison with NaN
  is false; \<open>-delta.where(delta < 0, 0)\<close> likewise for the negative ones.
\<close>

definition gains :: "real list \<Rightarrow> real list" where
  "gains cs =
     map (\<lambda>i. if 0 < i \<and> 0 < cs ! i - cs ! (i - 1) then cs ! i - cs ! (i - 1) else 0)
       [0..<length cs]"

definition losses :: "real list \<Rightarrow> real list" where
  "losses cs =
     map (\<lambda>i. - (if 0 < i \<and> cs ! i - cs ! (i - 1) < 0 then cs ! i - cs ! (i - 1) else 0))
       [0..<length cs]"

definition avg_gain :: "real list \<Rightarrow> nat \<Rightarrow> fval" where
  "avg_gain cs i = rolling_mean 14 (gains cs) i"

definition avg_loss :: "real list \<Rightarrow> nat \<Rightarrow> fval" where
  "avg_loss cs i = rolling_mean 14 (losses cs) i"

text \<open>\<open>rs = gain / loss\<close> and \<open>RSI = 100 - (100 / (1 + rs))\<close>, in float arithmetic.\<close>

definition rsi :: "real list \<Rightarrow> nat \<Rightarrow> fval" where
  "rsi cs i =
     (let rs = fdiv (avg_gain cs i) (avg_loss cs i)
      in fsub (Fin 100) (fdiv (Fin 100) (fadd (Fin 1) rs)))"

text \<open>
  \<open>Series.ewm(span=n).mean()\<close> with pandas' default \<open>adjust=True\<close>: the weighted mean of
  all rows so far with weights \<open>(1 - alpha) ^ j\<close> for the row \<open>j\<close> steps back,
  \<open>alpha = 2 / (n + 1)\<close>.
\<close>

definition ewm_mean :: "nat \<Rightarrow> real list \<Rightarrow> nat \<Rightarrow> real" where
  "ewm_mean n xs i =
     (let alpha = 2 / (real n + 1)
      in sum_list (map (\<lambda>j. (1 - alpha) ^ j * xs ! (i - j)) [0..<Suc i]) /
         sum_list (map (\<lambda>j. (1 - alpha) ^ j) [0..<Suc i]))"

text \<open>\<open>Series.pct_change()\<close>: \<open>x / x.shift(1) - 1\<close>, NaN in row 0.\<close>

definition pct_change :: "real list \<Rightarrow> nat \<Rightarrow> fval" where
  "pct_change xs i =
     (if i = 0 then NaN else fsub (fdiv (Fin (xs ! i)) (Fin (xs ! (i - 1)))) (Fin 1))"

definition row_at :: "price_bar list \<Rightarrow> nat \<Rightarrow> indicator_row" where
  "row_at bars i =
     (let b = bars ! i;
          cs = map bar_close bars;
          vs = map bar_volume bars;
          bb_middle = rolling_mean 20 cs i;
          bb_std = rolling_std 20 cs i
      in \<lparr>row_date = bar_date b, Open = bar_open b, High = bar_high b, Low = bar_low b,
           Close = bar_close b, Volume = bar_volume b,
           SMA_20 = rolling_mean 20 cs i,
           SMA_50 = rolling_mean 50 cs i,
           RSI = rsi cs i,
           MACD = Fin (ewm_mean 12 cs i - ewm_mean 26 cs i),
           BB_upper = fadd bb_middle (fscale bb_std 2),
           BB_middle = bb_middle,
           BB_lower = fsub bb_middle (fscale bb_std 2),
           Price_Change = pct_change cs i,
           Volume_Change = pct_change vs i\<rparr>)"

text \<open>\<open>data.dropna()\<close> removes every row that holds a NaN (an infinity is kept).\<close>

definition has_nan :: "indicator_row \<Rightarrow> bool" where
  "has_nan r =
     (is_nan (SMA_20 r) \<or> is_nan (SMA_50 r) \<or> is_nan (RSI r) \<or> is_nan (MACD r) \<or>
      is_nan (BB_upper r) \<or> is_nan (BB_middle r) \<or> is_nan (BB_lower r) \<or>
      is_nan (Price_Change r) \<or> is_nan (Volume_Change r))"

definition indicator_table :: "price_bar list \<Rightarrow> indicator_row list" where
  "indicator_table bars =
     filter (\<lambda>r. \<not> has_nan r) (map (row_at bars) [0..<length bars])"

subsection \<open>Sample series\<close>

text \<open>
  Two raw series on which the theorems below are instantiated: one whose close rises by 1
  every day, and one whose close never moves.
\<close>

definition rising_bars :: "nat \<Rightarrow> price_bar list" where
  "rising_bars n =
     map (\<lambda>k. \<lparr>bar_date = int k, bar_open = 100 + real k, bar_high = 102 + real k,
                bar_low = 99 + real k, bar_close = 101 + real k, bar_volume = 1000\<rparr>)
       [0..<n]"

definition flat_bars :: "nat \<Rightarrow> price_bar list" where
  "flat_bars n =
     map (\<lambda>k. \<lparr>bar_date = int k, bar_open = 100, bar_high = 100, bar_low = 100,
                bar_close = 100, bar_volume = 1000\<rparr>)
       [0..<n]"

section \<open>Model registry and forecast (\<open>StockPredictor\<close>)\<close>

text \<open>
  The predictor object holds one scaler, the dict of trained models, the data cache, and
  (outside the process) the pickled models on disk. An in-memory registry entry holds
  \<open>self.scaler\<close> by reference (\<open>Shared\<close>: the entry sees whatever state that one scaler
  object has); an entry read back from disk has its own copy (\<open>Own\<close>).

  A fitted scaler and a fitted estimator remember the number of columns they were fitted
  on (scikit-learn's \<open>n_features_in_\<close>) and check every later input against it; what
  else they learned is a value of the library's.
\<close>

datatype 'sc scaler_ref = Shared | Own 'sc

record 'sc fitted_scaler =
  sc_n_features :: nat
  sc_state :: 'sc

record 'm fitted_model =
  est_n_features :: nat
  est_state :: 'm

record ('m, 'sc) artifact =
  art_model :: "'m fitted_model"
  art_scaler :: "'sc fitted_scaler scaler_ref"
  art_mse :: real
  art_mae :: real
  last_trained :: int

record ('m, 'sc) predictor =
  scaler :: "'sc fitted_scaler option"
  models :: "string \<rightharpoonup> ('m, 'sc) artifact"
  data_cache :: "string \<rightharpoonup> indicator_row list"
  disk :: "string \<rightharpoonup> ('m, 'sc) artifact"

text \<open>
  \<open>__init__\<close>: an unfitted scaler, no model, no cached table; the files are those already
  in the \<open>models\<close> directory.
\<close>

definition new_predictor :: "(string \<rightharpoonup> ('m, 'sc) artifact) \<Rightarrow> ('m, 'sc) predictor" where
  "new_predictor files =
     \<lparr>scaler = None, models = Map.empty, data_cache = Map.empty, disk = files\<rparr>"

text \<open>
  What the code calls outside the repository, as parameters: the random generation of the
  raw table, the arithmetic of scikit-learn's scaler (column by column) and of its
  estimators (row by row), joblib and the clock. The checks that scikit-learn and numpy
  make on the shape of an input do not depend on that arithmetic and are written out
  below.
\<close>

record ('m, 'sc) lib =
  lib_raw_data :: "string \<Rightarrow> error + price_bar list"
  lib_scaler_fit :: "real list list \<Rightarrow> 'sc"
  lib_scale :: "'sc \<Rightarrow> nat \<Rightarrow> real \<Rightarrow> real"
  lib_unscale :: "'sc \<Rightarrow> nat \<Rightarrow> real \<Rightarrow> real"
  lib_model_fit :: "string \<Rightarrow> real list list \<Rightarrow> real list \<Rightarrow> error + 'm"
  lib_model_predict :: "'m \<Rightarrow> real list \<Rightarrow> real"
  lib_dump :: "string \<Rightarrow> error option"
  lib_load :: "string \<Rightarrow> error option"
  lib_now :: int

definition model_key :: "string \<Rightarrow> string \<Rightarrow> string" where
  "model_key symbol model_type = symbol @ ''_'' @ model_type"

text \<open>\<open>get_stock_data\<close>: the cached table, or a new one that is cached.\<close>

definition get_stock_data ::
  "('m, 'sc) lib \<Rightarrow> ('m, 'sc) predictor \<Rightarrow> string \<Rightarrow>
     ('m, 'sc) predictor \<times> (error + indicator_row list)"
where
  "get_stock_data L s symbol =
     (case data_cache s symbol of
        Some data \<Rightarrow> (s, Inr data)
      | None \<Rightarrow>
          (case lib_raw_data L symbol of
             Inl e \<Rightarrow> (s, Inl e)
           | Inr bars \<Rightarrow>
               (let data = indicator_table bars
                in (s\<lparr>data_cache := (data_cache s)(symbol \<mapsto> data)\<rparr>, Inr data))))"

subsection \<open>The scaler and the estimators\<close>

text \<open>
  \<open>data[features]\<close>: the fourteen feature columns of a row, in the order of the list
  \<open>features\<close>; the close is column 3.
\<close>

definition select_features :: "indicator_row \<Rightarrow> fval list" where
  "select_features r =
     [Fin (Open r), Fin (High r), Fin (Low r), Fin (Close r), Fin (Volume r),
      SMA_20 r, SMA_50 r, RSI r, MACD r, BB_upper r, BB_middle r, BB_lower r,
      Price_Change r, Volume_Change r]"

text \<open>
  The validation every scikit-learn call starts with: an array without rows is rejected,
  and so is one that holds an infinity (here, a change from a zero value). A NaN, which
  the scaler alone would let through and the estimators reject, does not occur: the
  tables of \<open>get_stock_data\<close> have been through \<open>dropna\<close>. It is rejected here as well.
\<close>

fun is_finite :: "fval \<Rightarrow> bool" where
  "is_finite (Fin x) = True"
| "is_finite v = False"

fun the_real :: "fval \<Rightarrow> real" where
  "the_real (Fin x) = x"
| "the_real v = 0"

definition check_array :: "fval list list \<Rightarrow> error + real list list" where
  "check_array X =
     (if X = [] then Inl (ValueError ''Found array with 0 sample(s)'')
      else if \<not> list_all (list_all is_finite) X
      then Inl (ValueError ''Input X contains infinity'')
      else Inr (map (map the_real) X))"

definition features_mismatch :: error where
  "features_mismatch = ValueError ''X has a different number of features than the fit''"

text \<open>
  \<open>MinMaxScaler\<close>. \<open>fit\<close> records the number of columns; \<open>transform\<close> accepts only an
  array with that number of columns and maps it value by value, keeping its shape.
  \<open>inverse_transform\<close> subtracts and divides in place by the per-column vectors of the
  fit, which numpy allows only when the array has as many columns as the fit.
\<close>

definition scaler_fit :: "('m, 'sc) lib \<Rightarrow> indicator_row list \<Rightarrow> error + 'sc fitted_scaler" where
  "scaler_fit L data =
     (case check_array (map select_features data) of
        Inl e \<Rightarrow> Inl e
      | Inr X \<Rightarrow> Inr \<lparr>sc_n_features = length (hd X), sc_state = lib_scaler_fit L X\<rparr>)"

definition scaler_transform ::
  "('m, 'sc) lib \<Rightarrow> 'sc fitted_scaler \<Rightarrow> indicator_row list \<Rightarrow> error + real list list"
where
  "scaler_transform L sc data =
     (case check_array (map select_features data) of
        Inl e \<Rightarrow> Inl e
      | Inr X \<Rightarrow>
          if \<not> list_all (\<lambda>row. length row = sc_n_features sc) X then Inl features_mismatch
          else Inr (map (\<lambda>row. map (\<lambda>j. lib_scale L (sc_state sc) j (row ! j))
                                  [0..<length row]) X))"

definition scaler_inverse_transform ::
  "('m, 'sc) lib \<Rightarrow> 'sc fitted_scaler \<Rightarrow> real list list \<Rightarrow> error + real list list"
where
  "scaler_inverse_transform L sc X =
     (if X = [] then Inl (ValueError ''Found array with 0 sample(s)'')
      else if \<not> list_all (\<lambda>row. length row = sc_n_features sc) X
      then Inl (ValueError ''non-broadcastable output operand'')
      else Inr (map (\<lambda>row. map (\<lambda>j. lib_unscale L (sc_state sc) j (row ! j))
                              [0..<length row]) X))"

text \<open>
  \<open>LinearRegression\<close> and \<open>RandomForestRegressor\<close>. \<open>fit\<close> records the number of columns
  of the training array; \<open>predict\<close> accepts only an array with that number of columns
  and returns one value per row.
\<close>

definition model_fit ::
  "('m, 'sc) lib \<Rightarrow> string \<Rightarrow> real list list \<Rightarrow> real list \<Rightarrow> error + 'm fitted_model"
where
  "model_fit L model_type X y =
     (if X = [] \<or> length X \<noteq> length y
      then Inl (ValueError ''inconsistent numbers of samples'')
      else case lib_model_fit L model_type X y of
             Inl e \<Rightarrow> Inl e
           | Inr m \<Rightarrow> Inr \<lparr>est_n_features = length (hd X), est_state = m\<rparr>)"

definition model_predict ::
  "('m, 'sc) lib \<Rightarrow> 'm fitted_model \<Rightarrow> real list list \<Rightarrow> error + real list"
where
  "model_predict L m X =
     (if X = [] then Inl (ValueError ''Found array with 0 sample(s)'')
      else if \<not> list_all (\<lambda>row. length row = est_n_features m) X then Inl features_mismatch
      else Inr (map (lib_model_predict L (est_state m)) X))"

subsection \<open>\<open>prepare_data\<close> and \<open>train_model\<close>\<close>

text \<open>
  \<open>prepare_data\<close>: \<open>self.scaler.fit_transform\<close> refits the one scaler object (a fit that
  raises has already discarded the previous fit), then the windows of 60 scaled rows and
  the scaled close (column 3) of the row after each window.
\<close>

definition prepare_data ::
  "('m, 'sc) lib \<Rightarrow> ('m, 'sc) predictor \<Rightarrow> indicator_row list \<Rightarrow>
     ('m, 'sc) predictor \<times> (error + real list list list \<times> real list)"
where
  "prepare_data L s data =
     (case scaler_fit L data of
        Inl e \<Rightarrow> (s\<lparr>scaler := None\<rparr>, Inl e)
      | Inr sc \<Rightarrow>
          (let s1 = s\<lparr>scaler := Some sc\<rparr>
           in case scaler_transform L sc data of
                Inl e \<Rightarrow> (s1, Inl e)
              | Inr scaled_data \<Rightarrow>
                  (let idx = [60..<length scaled_data]
                   in if list_all (\<lambda>i. 3 < length (scaled_data ! i)) idx
                      then (s1, Inr (map (\<lambda>i. take 60 (drop (i - 60) scaled_data)) idx,
                                     map (\<lambda>i. scaled_data ! i ! 3) idx))
                      else (s1, Inl IndexError))))"

text \<open>\<open>mean_squared_error\<close> and \<open>mean_absolute_error\<close> reject empty or unequal inputs.\<close>

definition mean_squared_error :: "real list \<Rightarrow> real list \<Rightarrow> error + real" where
  "mean_squared_error y_true y_pred =
     (if y_true = [] \<or> length y_true \<noteq> length y_pred
      then Inl (ValueError ''inconsistent numbers of samples'')
      else Inr (mean (map2 (\<lambda>a b. (a - b)\<^sup>2) y_true y_pred)))"

definition mean_absolute_error :: "real list \<Rightarrow> real list \<Rightarrow> error + real" where
  "mean_absolute_error y_true y_pred =
     (if y_true = [] \<or> length y_true \<noteq> length y_pred
      then Inl (ValueError ''inconsistent numbers of samples'')
      else Inr (mean (map2 (\<lambda>a b. \<bar>a - b\<bar>) y_true y_pred)))"

record train_result =
  tr_symbol :: string
  tr_model_type :: string
  tr_mse :: real
  tr_mae :: real

text \<open>
  The body of \<open>train_model\<close> from the split to the evaluation: \<open>int(len(X) * 0.8)\<close>, fit on
  the first part, each window of 60 rows flattened into one row by
  \<open>reshape(X_train.shape[0], -1)\<close>, predict and score the rest.
\<close>

definition fit_and_evaluate ::
  "('m, 'sc) lib \<Rightarrow> string \<Rightarrow> real list list list \<Rightarrow> real list \<Rightarrow>
     error + 'm fitted_model \<times> real \<times> real"
where
  "fit_and_evaluate L model_type X y =
     (if length X < 100 then Inl (ValueError ''Insufficient data for training'')
      else let split = (length X * 4) div 5;
               X_train = map concat (take split X);
               X_test = map concat (drop split X);
               y_train = take split y;
               y_test = drop split y
           in if model_type \<noteq> ''linear'' \<and> model_type \<noteq> ''ensemble''
              then Inl (ValueError (''Unsupported model type: '' @ model_type))
              else case model_fit L model_type X_train y_train of
                     Inl e \<Rightarrow> Inl e
                   | Inr m \<Rightarrow>
                      (case model_predict L m X_test of
                         Inl e \<Rightarrow> Inl e
                       | Inr y_pred \<Rightarrow>
                          (case mean_squared_error y_test y_pred of
                             Inl e \<Rightarrow> Inl e
                           | Inr mse \<Rightarrow>
                              (case mean_absolute_error y_test y_pred of
                                 Inl e \<Rightarrow> Inl e
                               | Inr mae \<Rightarrow> Inr (m, mse, mae)))))"

text \<open>What \<open>joblib.dump\<close> writes: the entry by value, the scaler as it is at that moment.\<close>

definition pickled :: "('m, 'sc) predictor \<Rightarrow> ('m, 'sc) artifact \<Rightarrow> ('m, 'sc) artifact option" where
  "pickled s a =
     (case art_scaler a of
        Own sc \<Rightarrow> Some a
      | Shared \<Rightarrow> (case scaler s of None \<Rightarrow> None | Some sc \<Rightarrow> Some (a\<lparr>art_scaler := Own sc\<rparr>)))"

text \<open>
  \<open>train_model\<close>. Every exception is caught and reported as the error result; the state
  changes made before it stay.
\<close>

definition train_model ::
  "('m, 'sc) lib \<Rightarrow> ('m, 'sc) predictor \<Rightarrow> string \<Rightarrow> string \<Rightarrow>
     ('m, 'sc) predictor \<times> (error + train_result)"
where
  "train_model L s symbol model_type =
     (case get_stock_data L s symbol of
        (s1, Inl e) \<Rightarrow> (s1, Inl e)
      | (s1, Inr data) \<Rightarrow>
         (case prepare_data L s1 data of
            (s2, Inl e) \<Rightarrow> (s2, Inl e)
          | (s2, Inr (X, y)) \<Rightarrow>
             (case fit_and_evaluate L model_type X y of
                Inl e \<Rightarrow> (s2, Inl e)
              | Inr (m, mse, mae) \<Rightarrow>
                 (let key = model_key symbol model_type;
                      a = \<lparr>art_model = m, art_scaler = Shared, art_mse = mse, art_mae = mae,
                           last_trained = lib_now L\<rparr>;
                      s3 = s2\<lparr>models := (models s2)(key \<mapsto> a)\<rparr>
                  in case lib_dump L key of
                       Some e \<Rightarrow> (s3, Inl e)
                     | None \<Rightarrow>
                        (s3\<lparr>disk := (disk s3)(key := pickled s3 a)\<rparr>,
                         Inr \<lparr>tr_symbol = symbol, tr_model_type = model_type,
                              tr_mse = mse, tr_mae = mae\<rparr>)))))"

subsection \<open>\<open>predict\<close>\<close>

text \<open>
  Dates are day numbers: \<open>last_date + timedelta(days=i+1)\<close> adds \<open>i + 1\<close>, and the
  \<open>%Y-%m-%d\<close> rendering of a day is left out.
\<close>

record forecast =
  fc_symbol :: string
  predictions :: "(int \<times> real) list"
  current_price :: real
  fc_model_type :: string
  confidence :: real

definition scaler_of ::
  "('m, 'sc) predictor \<Rightarrow> ('m, 'sc) artifact \<Rightarrow> 'sc fitted_scaler option"
where
  "scaler_of s a = (case art_scaler a of Own sc \<Rightarrow> Some sc | Shared \<Rightarrow> scaler s)"

text \<open>
  The loop \<open>for _ in range(days)\<close>: predict from the current row, keep the first value,
  rotate the row left by one and overwrite its last entry with the prediction. The
  current row is \<open>scaled_data[-1:].reshape(1, -1)\<close>, the last scaled row alone, with its
  fourteen columns.
\<close>

fun rollout ::
  "('m, 'sc) lib \<Rightarrow> 'm fitted_model \<Rightarrow> nat \<Rightarrow> real list \<Rightarrow> error + real list"
where
  "rollout L m 0 current_data = Inr []"
| "rollout L m (Suc n) current_data =
     (case model_predict L m [current_data] of
        Inl e \<Rightarrow> Inl e
      | Inr [] \<Rightarrow> Inl IndexError
      | Inr (pred # _) \<Rightarrow>
          if current_data = [] then Inl IndexError
          else (case rollout L m n (tl current_data @ [pred]) of
                  Inl e \<Rightarrow> Inl e
                | Inr rest \<Rightarrow> Inr (pred # rest)))"

text \<open>The first step of \<open>predict\<close>: use the entry in memory, else load the file, else train.\<close>

definition load_or_train ::
  "('m, 'sc) lib \<Rightarrow> ('m, 'sc) predictor \<Rightarrow> string \<Rightarrow> string \<Rightarrow>
     ('m, 'sc) predictor \<times> error option"
where
  "load_or_train L s symbol model_type =
     (let key = model_key symbol model_type
      in case models s key of
           Some a \<Rightarrow> (s, None)
         | None \<Rightarrow>
            (case disk s key of
               Some a \<Rightarrow>
                 (case lib_load L key of
                    Some e \<Rightarrow> (s, Some e)
                  | None \<Rightarrow> (s\<lparr>models := (models s)(key \<mapsto> a)\<rparr>, None))
             | None \<Rightarrow> (fst (train_model L s symbol model_type), None)))"

text \<open>
  The rest of \<open>predict\<close>: scale the last 60 rows, run the loop, and hand the predictions
  to \<open>inverse_transform\<close> as one column, \<open>np.array(predictions).reshape(-1, 1)\<close>, of which
  \<open>[:, 0]\<close> is read back.
\<close>

definition forecast_from ::
  "('m, 'sc) lib \<Rightarrow> ('m, 'sc) predictor \<Rightarrow> ('m, 'sc) artifact \<Rightarrow> indicator_row list \<Rightarrow>
     string \<Rightarrow> int \<Rightarrow> string \<Rightarrow> error + forecast"
where
  "forecast_from L s a data symbol days model_type =
     (let recent_data = drop (length data - 60) data
      in case scaler_of s a of
           None \<Rightarrow> Inl (LibraryError ''NotFittedError'')
         | Some sc \<Rightarrow>
            (case scaler_transform L sc recent_data of
               Inl e \<Rightarrow> Inl e
             | Inr scaled_data \<Rightarrow>
                (let current_data = last scaled_data
                 in case rollout L (art_model a) (nat days) current_data of
                      Inl e \<Rightarrow> Inl e
                    | Inr preds \<Rightarrow>
                       (case scaler_inverse_transform L sc (map (\<lambda>p. [p]) preds) of
                          Inl e \<Rightarrow> Inl e
                        | Inr rows \<Rightarrow>
                           if data = [] then Inl IndexError
                           else let prices = map hd rows;
                                    last_date = row_date (last data);
                                    pred_dates = map (\<lambda>i. last_date + (int i + 1)) [0..<nat days]
                                in Inr \<lparr>fc_symbol = symbol,
                                        predictions = zip pred_dates prices,
                                        current_price = Close (last data),
                                        fc_model_type = model_type,
                                        confidence = 0.75\<rparr>))))"

definition predict ::
  "('m, 'sc) lib \<Rightarrow> ('m, 'sc) predictor \<Rightarrow> string \<Rightarrow> int \<Rightarrow> string \<Rightarrow>
     ('m, 'sc) predictor \<times> (error + forecast)"
where
  "predict L s symbol days model_type =
     (case load_or_train L s symbol model_type of
        (s1, Some e) \<Rightarrow> (s1, Inl e)
      | (s1, None) \<Rightarrow>
         (case models s1 (model_key symbol model_type) of
            None \<Rightarrow> (s1, Inl (ValueError (''Failed to load or train model for '' @ symbol)))
          | Some a \<Rightarrow>
             (case get_stock_data L s1 symbol of
                (s2, Inl e) \<Rightarrow> (s2, Inl e)
              | (s2, Inr data) \<Rightarrow>
                  (s2, forecast_from L s2 a data symbol days model_type))))"

subsection \<open>The states a predictor can be in\<close>

text \<open>
  A predictor starts from \<open>__init__\<close>, with files that an earlier run has written (each
  holds the copy of a scaler fitted on the fourteen feature columns), and changes by calls
  of its methods: \<open>train_model\<close>, \<open>predict\<close>, and \<open>get_stock_data\<close> (which \<open>get_history\<close>
  and \<open>get_technical_indicators\<close> call).
\<close>

inductive reachable :: "('m, 'sc) predictor \<Rightarrow> bool" where
  start: "(\<And>key a. files key = Some a \<Longrightarrow>
             \<exists>sc. art_scaler a = Own sc \<and> sc_n_features sc = 14)
          \<Longrightarrow> reachable (new_predictor files)"
| trained: "reachable s \<Longrightarrow> reachable (fst (train_model L s symbol model_type))"
| predicted: "reachable s \<Longrightarrow> reachable (fst (predict L s symbol days model_type))"
| fetched: "reachable s \<Longrightarrow> reachable (fst (get_stock_data L s symbol))"

subsection \<open>A sample library\<close>

text \<open>
  Stand-ins for the parameters, on which the theorems below are instantiated. The raw
  table is the rising series, of a length that depends on the symbol (209 bars for a
  one-letter symbol). The scaler's state is the number of rows it was fitted on (its
  \<open>n_samples_seen_\<close>) and it maps every value to itself; the estimators learn nothing and
  predict 0. The write to disk, the read and the clock do nothing special.
\<close>

definition sample_lib :: "(unit, nat) lib" where
  "sample_lib =
     \<lparr>lib_raw_data = (\<lambda>symbol. Inr (rising_bars (208 + length symbol))),
      lib_scaler_fit = length,
      lib_scale = (\<lambda>st j x. x),
      lib_unscale = (\<lambda>st j x. x),
      lib_model_fit = (\<lambda>model_type X y. Inr ()),
      lib_model_predict = (\<lambda>st row. 0),
      lib_dump = (\<lambda>key. None),
      lib_load = (\<lambda>key. None),
      lib_now = 0\<rparr>"

text \<open>
  In every such state, each fitted scaler (the predictor's own, and the copies held by
  entries and files) has been fitted on the fourteen feature columns.
\<close>

definition fitted_on_features :: "('m, 'sc) predictor \<Rightarrow> bool" where
  "fitted_on_features s \<longleftrightarrow>
     (\<forall>sc. scaler s = Some sc \<longrightarrow> sc_n_features sc = 14) \<and>
     (\<forall>key a sc. models s key = Some a \<longrightarrow> art_scaler a = Own sc \<longrightarrow> sc_n_features sc = 14) \<and>
     (\<forall>key a sc. disk s key = Some a \<longrightarrow> art_scaler a = Own sc \<longrightarrow> sc_n_features sc = 14)"

section \<open>Properties of the risk classification\<close>

lemma level_step_level: "acc_level (level_step a) = spec_risk_level (acc_score a)"
  by (simp add: level_step_def spec_risk_level_def)

lemma level_step_score: "acc_score (level_step a) = acc_score a"
  by (simp add: level_step_def)

text \<open>
  Claim C1. Whenever \<open>assess_portfolio_risk\<close> returns, the returned \<open>risk_level\<close> is the
  threshold function of the returned \<open>risk_score\<close> (at least 6 aggressive, at least 3
  moderate, otherwise conservative); the levels assigned while the factors are evaluated
  are overwritten, so two assessments with equal scores have equal levels.
\<close>

theorem risk_level_function_of_score:
  assumes "assess_portfolio_risk portfolio_risk sector_allocation correlation_matrix = Inr a"
  shows "risk_level a = spec_risk_level (risk_score a)"
proof (cases "max_sector_weight sector_allocation")
  case (Inl e)
  with assms show ?thesis by (simp add: assess_portfolio_risk_def)
next
  case (Inr w)
  with assms show ?thesis
    by (auto simp: assess_portfolio_risk_def Let_def level_step_level level_step_score)
qed

theorem risk_level_function_of_score_witness:
  "assess_portfolio_risk
      [(''volatility'', Fin 0.5), (''max_drawdown'', Fin (- 0.05)), (''sharpe_ratio'', Fin 0.7)]
      [(''Technology'', 10)] [[Fin 1]]
    = Inr \<lparr>risk_score = 5, risk_level = ''moderate'',
           risk_factors = [''High volatility (>40%)'', ''Low maximum drawdown (<10%)'',
             ''High sector concentration (>50% in one sector)'',
             ''Low correlation between holdings (<0.5)'',
             ''Good risk-adjusted returns (Sharpe 0.5-1.0)''],
           recommendations =
             [''Consider adding defensive stocks or bonds to reduce volatility'',
              ''Diversify across different sectors to reduce concentration risk'']\<rparr>
   \<and> ''moderate'' = spec_risk_level 5"
proof -
  have run: "assess_portfolio_risk
      [(''volatility'', Fin 0.5), (''max_drawdown'', Fin (- 0.05)), (''sharpe_ratio'', Fin 0.7)]
      [(''Technology'', 10)] [[Fin 1]]
    = Inr \<lparr>risk_score = 5, risk_level = ''moderate'',
           risk_factors = [''High volatility (>40%)'', ''Low maximum drawdown (<10%)'',
             ''High sector concentration (>50% in one sector)'',
             ''Low correlation between holdings (<0.5)'',
             ''Good risk-adjusted returns (Sharpe 0.5-1.0)''],
           recommendations =
             [''Consider adding defensive stocks or bonds to reduce volatility'',
              ''Diversify across different sectors to reduce concentration risk'']\<rparr>"
    by (simp add: assess_portfolio_risk_def Let_def dict_get_def volatility_step_def
        drawdown_step_def max_sector_weight_def sector_step_def avg_correlation_def
        fmean_def fsum_def correlation_step_def sharpe_step_def level_step_def bump_def
        remark_def generate_risk_recommendations_def py_str_list_def)
  from risk_level_function_of_score [OF run] show ?thesis
    using run by simp
qed

section \<open>Properties of the risk metrics\<close>

text \<open>
  Claim C3. A return series with fewer than 30 observations gets the empty dict, with no
  metric in it; one with at least 30 observations gets a dict with exactly the nine keys
  mean_return, volatility, sharpe_ratio, max_drawdown, var_95, expected_shortfall,
  skewness, kurtosis and beta.
\<close>

theorem risk_metrics_empty_or_populated:
  "(length returns < 30 \<longrightarrow> calculate_risk_metrics returns = []) \<and>
   (30 \<le> length returns \<longrightarrow>
      map fst (calculate_risk_metrics returns) =
        [''mean_return'', ''volatility'', ''sharpe_ratio'', ''max_drawdown'', ''var_95'',
         ''expected_shortfall'', ''skewness'', ''kurtosis'', ''beta''])"
  by (simp add: calculate_risk_metrics_def Let_def)

theorem risk_metrics_empty_or_populated_witness:
  "length [0.01, - 0.02 :: real] < 30 \<and> calculate_risk_metrics [0.01, - 0.02] = [] \<and>
   30 \<le> length (replicate 30 (0.01 :: real)) \<and>
   map fst (calculate_risk_metrics (replicate 30 0.01)) =
     [''mean_return'', ''volatility'', ''sharpe_ratio'', ''max_drawdown'', ''var_95'',
      ''expected_shortfall'', ''skewness'', ''kurtosis'', ''beta'']"
  using risk_metrics_empty_or_populated [of "[0.01, - 0.02]"]
    risk_metrics_empty_or_populated [of "replicate 30 0.01"]
  by simp

subsection \<open>Maximum drawdown\<close>

lemma fmin2_zero_le: "fle (fmin2 (Fin 0) b) (Fin 0)"
  by (cases b) (auto simp: fmin2_def)

lemma drawdown_Cons:
  "drawdown (r # rs) =
     fdiv (Fin 0) (Fin (1 + r)) #
       map2 (\<lambda>c m. fdiv (Fin (c - m)) (Fin m))
         (cumprod_from (1 + r) (map (\<lambda>r. 1 + r) rs))
         (cummax_from (1 + r) (cumprod_from (1 + r) (map (\<lambda>r. 1 + r) rs)))"
  by (simp add: drawdown_def cumulative_returns_def)

lemma max_drawdown_le_zero:
  assumes "returns \<noteq> []" and "hd returns \<noteq> - 1"
  shows "fle (max_drawdown returns) (Fin 0)"
proof -
  obtain r rs where rs: "returns = r # rs" using assms(1) by (cases returns) auto
  have "1 + r \<noteq> 0" using assms(2) rs by auto
  then have "fdiv (Fin 0) (Fin (1 + r)) = Fin 0" by simp
  then show ?thesis
    unfolding max_drawdown_def fmin_skipna_def rs drawdown_Cons
    by (simp add: fmin2_zero_le)
qed

lemma cummax_from_sorted: "sorted (m # xs) \<Longrightarrow> cummax_from m xs = xs"
  by (induction xs arbitrary: m) (auto simp: max_def)

lemma expanding_max_sorted: "sorted xs \<Longrightarrow> expanding_max xs = xs"
  by (cases xs) (simp_all add: cummax_from_sorted del: sorted_wrt.simps)

lemma fmin2_zero_or_nan:
  "a = Fin 0 \<or> a = NaN \<Longrightarrow> b = Fin 0 \<or> b = NaN \<Longrightarrow> fmin2 a b = Fin 0 \<or> fmin2 a b = NaN"
  by (auto simp: fmin2_def)

lemma foldr_fmin2_zero_or_nan:
  "(\<And>x. x \<in> set xs \<Longrightarrow> x = Fin 0 \<or> x = NaN) \<Longrightarrow>
     foldr fmin2 xs NaN = Fin 0 \<or> foldr fmin2 xs NaN = NaN"
proof (induction xs)
  case Nil
  show ?case by simp
next
  case (Cons a xs)
  have "a = Fin 0 \<or> a = NaN" using Cons.prems by simp
  moreover have "foldr fmin2 xs NaN = Fin 0 \<or> foldr fmin2 xs NaN = NaN"
    using Cons.IH Cons.prems by simp
  ultimately show ?case using fmin2_zero_or_nan by simp
qed

lemma drawdown_sorted:
  assumes "sorted (cumulative_returns returns)"
  shows "drawdown returns = map (\<lambda>c. fdiv (Fin 0) (Fin c)) (cumulative_returns returns)"
  by (simp add: drawdown_def Let_def expanding_max_sorted [OF assms]
      zip_same_conv_map)

lemma max_drawdown_sorted:
  assumes "returns \<noteq> []" and "hd returns \<noteq> - 1" and "sorted (cumulative_returns returns)"
  shows "max_drawdown returns = Fin 0"
proof -
  have "\<And>x. x \<in> set (drawdown returns) \<Longrightarrow> x = Fin 0 \<or> x = NaN"
    unfolding drawdown_sorted [OF assms(3)] by auto
  then have "max_drawdown returns = Fin 0 \<or> max_drawdown returns = NaN"
    unfolding max_drawdown_def fmin_skipna_def by (rule foldr_fmin2_zero_or_nan)
  moreover have "fle (max_drawdown returns) (Fin 0)"
    using assms(1,2) by (rule max_drawdown_le_zero)
  ultimately show ?thesis by auto
qed

text \<open>
  Claim C8, as amended. For a return series with at least 30 observations whose first
  return is not -1 (so that the compounded path does not start at zero), the
  \<open>max_drawdown\<close> entry is at most 0, and it is exactly 0 when the cumulative return path
  is non-decreasing.
\<close>

theorem max_drawdown_nonpositive:
  assumes "30 \<le> length returns" and "hd returns \<noteq> - 1"
  shows "\<exists>d. map_of (calculate_risk_metrics returns) ''max_drawdown'' = Some d \<and>
           fle d (Fin 0) \<and>
           (sorted (cumulative_returns returns) \<longrightarrow> d = Fin 0)"
proof -
  have ne: "returns \<noteq> []" using assms(1) by auto
  have "map_of (calculate_risk_metrics returns) ''max_drawdown'' = Some (max_drawdown returns)"
    using assms(1) by (simp add: calculate_risk_metrics_def Let_def)
  moreover have "fle (max_drawdown returns) (Fin 0)"
    using ne assms(2) by (rule max_drawdown_le_zero)
  moreover have "sorted (cumulative_returns returns) \<longrightarrow> max_drawdown returns = Fin 0"
    using ne assms(2) by (simp add: max_drawdown_sorted)
  ultimately show ?thesis by blast
qed

lemma cumulative_returns_flat: "cumulative_returns (replicate 30 0) = replicate 30 1"
  by code_simp

theorem max_drawdown_nonpositive_witness:
  "30 \<le> length (replicate 30 (0 :: real)) \<and> hd (replicate 30 (0 :: real)) \<noteq> - 1 \<and>
   sorted (cumulative_returns (replicate 30 0)) \<and>
   map_of (calculate_risk_metrics (replicate 30 0)) ''max_drawdown'' = Some (Fin 0)"
proof -
  have s: "sorted (cumulative_returns (replicate 30 0))"
    unfolding cumulative_returns_flat by (simp add: sorted_replicate)
  have h: "hd (replicate 30 (0 :: real)) \<noteq> - 1" by simp
  have l: "30 \<le> length (replicate 30 (0 :: real))" by simp
  from max_drawdown_nonpositive [OF l h] s
  have "map_of (calculate_risk_metrics (replicate 30 0)) ''max_drawdown'' = Some (Fin 0)"
    by auto
  with s h l show ?thesis by blast
qed

text \<open>
  The claim as stated, for every series with at least 30 observations, fails on a series
  that starts with a return of -1: the compounded path is constantly 0 (hence
  non-decreasing), every drawdown entry is 0/0, and the minimum that skips NaN is NaN,
  which is neither at most 0 nor equal to 0.
\<close>

lemma max_drawdown_total_loss: "max_drawdown (replicate 30 (- 1)) = NaN"
  by code_simp

lemma cumulative_returns_total_loss: "cumulative_returns (replicate 30 (- 1)) = replicate 30 0"
  by code_simp

theorem max_drawdown_counterexample:
  "30 \<le> length (replicate 30 (- 1 :: real)) \<and>
   sorted (cumulative_returns (replicate 30 (- 1))) \<and>
   map_of (calculate_risk_metrics (replicate 30 (- 1))) ''max_drawdown'' = Some NaN \<and>
   \<not> fle NaN (Fin 0) \<and> NaN \<noteq> Fin 0"
proof -
  have "sorted (cumulative_returns (replicate 30 (- 1)))"
    unfolding cumulative_returns_total_loss by (simp add: sorted_replicate)
  moreover have
    "map_of (calculate_risk_metrics (replicate 30 (- 1))) ''max_drawdown'' = Some NaN"
    using max_drawdown_total_loss by (simp add: calculate_risk_metrics_def Let_def)
  ultimately show ?thesis by simp
qed

subsection \<open>Value at risk and expected shortfall\<close>

lemma sum_list_le_bound:
  fixes v :: real
  shows "(\<And>x. x \<in> set xs \<Longrightarrow> x \<le> v) \<Longrightarrow> sum_list xs \<le> real (length xs) * v"
proof (induction xs)
  case Nil
  show ?case by simp
next
  case (Cons a xs)
  have "a \<le> v" using Cons.prems by simp
  moreover have "sum_list xs \<le> real (length xs) * v"
    using Cons.IH Cons.prems by simp
  ultimately show ?case by (simp add: algebra_simps)
qed

lemma mean_le_bound:
  assumes "xs \<noteq> []" and "\<And>x. x \<in> set xs \<Longrightarrow> x \<le> v"
  shows "mean xs \<le> v"
proof -
  have "0 < real (length xs)" using assms(1) by simp
  moreover have "sum_list xs \<le> real (length xs) * v"
    using assms(2) by (rule sum_list_le_bound)
  ultimately show ?thesis
    unfolding mean_def by (simp add: pos_divide_le_eq mult.commute)
qed

lemma percentile_lower:
  assumes "a \<noteq> []" and "0 \<le> q" and "q \<le> 100"
  shows "\<exists>v x. percentile a q = Fin v \<and> x \<in> set a \<and> x \<le> v"
proof -
  define n where "n = length a"
  define pos where "pos = real (n - 1) * (q / 100)"
  define lo where "lo = nat \<lfloor>pos\<rfloor>"
  define hi where "hi = min (lo + 1) (n - 1)"
  define s where "s = sort a"
  have n: "0 < n" using assms(1) by (simp add: n_def)
  have pos0: "0 \<le> pos" using assms(2) by (simp add: pos_def)
  have posn: "pos \<le> real (n - 1)"
  proof -
    have "q / 100 \<le> 1" using assms(3) by simp
    then have "real (n - 1) * (q / 100) \<le> real (n - 1) * 1"
      by (intro mult_left_mono) simp_all
    then show ?thesis by (simp add: pos_def)
  qed
  have lo_le: "real lo \<le> pos" using pos0 by (simp add: lo_def)
  have "\<lfloor>pos\<rfloor> \<le> int (n - 1)" using posn by (simp add: floor_le_iff) 
  then have lo_n: "lo \<le> n - 1" by (simp add: lo_def)
  have lo_hi: "lo \<le> hi" using lo_n by (simp add: hi_def)
  have hi_n: "hi < length s" using n by (auto simp: hi_def s_def n_def min_def)
  have "s ! lo \<le> s ! hi"
    using lo_hi hi_n by (simp add: s_def sorted_nth_mono)
  then have "0 \<le> (s ! hi - s ! lo) * (pos - real lo)"
    using lo_le by simp
  then have ge: "s ! lo \<le> s ! lo + (s ! hi - s ! lo) * (pos - real lo)" by simp
  have "lo < length s" using lo_hi hi_n by simp
  then have mem: "s ! lo \<in> set a"
    using nth_mem [of lo s] by (simp add: s_def)
  have "percentile a q = Fin (s ! lo + (s ! hi - s ! lo) * (pos - real lo))"
    using assms(1) by (simp add: percentile_def Let_def s_def hi_def lo_def pos_def n_def)
  with ge mem show ?thesis by blast
qed

lemma expected_shortfall_tail:
  assumes "returns \<noteq> []"
  shows "\<exists>v. percentile returns 5 = Fin v \<and>
     filter (\<lambda>r. r \<le> v) returns \<noteq> [] \<and>
     mean (filter (\<lambda>r. r \<le> v) returns) \<le> v \<and>
     expected_shortfall returns (percentile returns 5) =
       Fin (float_mean (filter (\<lambda>r. r \<le> v) returns))"
proof -
  obtain v x where v: "percentile returns 5 = Fin v" and x: "x \<in> set returns" "x \<le> v"
    using percentile_lower [OF assms, of 5] by auto
  let ?tail = "filter (\<lambda>r. r \<le> v) returns"
  have ne: "?tail \<noteq> []" using x by (auto simp: filter_empty_conv)
  have "mean ?tail \<le> v" using ne by (rule mean_le_bound) simp
  moreover have "expected_shortfall returns (percentile returns 5) = Fin (float_mean ?tail)"
    using ne by (simp add: expected_shortfall_def v Let_def)
  ultimately show ?thesis using v ne by blast
qed

text \<open>Rounding to float64 at a value whose binary exponent is known.\<close>

lemma floor_log2:
  assumes "0 < x" and "2 powi e \<le> x" and "x < 2 powi (e + 1)"
  shows "\<lfloor>log 2 x\<rfloor> = e"
proof -
  have "2 powr (real_of_int e) \<le> x" using assms(2) by (simp add: powr_real_of_int')
  moreover have "x < 2 powr (real_of_int (e + 1))"
    using assms(3) powr_real_of_int' [of 2 "e + 1"] by simp
  ultimately show ?thesis
    using assms(1) floor_log_eq_powr_iff [of x 2 e] by simp
qed

lemma fl64_at:
  assumes "0 < x" and "2 powi e \<le> x" and "x < 2 powi (e + 1)"
  shows "fl64 x = of_int (round_half_even (x / 2 powi (e - 52))) * 2 powi (e - 52)"
  using assms floor_log2 [OF assms] by (simp add: fl64_def ulp64_def)

lemma float_mean_tenths: "float_mean [tenth, tenth, tenth] = tenth + 1 / 2 ^ 56"
proof -
  define c :: real where "c = 5404319552844596 / 2 ^ 54"
  have r0: "fl64 tenth = tenth"
    using fl64_at [of tenth "- 4"]
    by (simp add: tenth_def round_half_even_def power_int_minus)
  have r1: "fl64 (tenth + tenth) = tenth + tenth"
    using fl64_at [of "tenth + tenth" "- 3"]
    by (simp add: tenth_def round_half_even_def power_int_minus)
  have r2: "fl64 (tenth + tenth + tenth) = c"
    using fl64_at [of "tenth + tenth + tenth" "- 2"]
    by (simp add: tenth_def c_def round_half_even_def power_int_minus)
  have r3: "fl64 (c / 3) = tenth + 1 / 2 ^ 56"
    using fl64_at [of "c / 3" "- 4"]
    by (simp add: tenth_def c_def round_half_even_def power_int_minus)
  have "pairwise_sum [tenth, tenth, tenth] = foldl add64 0 [tenth, tenth, tenth]"
    by (subst pairwise_sum.simps) simp
  also have "\<dots> = fl64 (fl64 (fl64 (0 + tenth) + tenth) + tenth)"
    by (simp only: foldl.simps add64_def)
  also have "\<dots> = c"
    by (simp only: add_0 r0 r1 r2)
  finally have s: "pairwise_sum [tenth, tenth, tenth] = c" .
  have l: "real (length [tenth, tenth, tenth]) = 3" by simp
  show ?thesis by (simp only: float_mean_def s l r3)
qed

lemma tied_percentile: "percentile tied_returns 5 = Fin tenth"
proof -
  have p: "0 < tenth" by (simp add: tenth_def)
  have "sorted tied_returns"
    using p by (auto simp: tied_returns_def sorted_append)
  then have s: "sort tied_returns = tied_returns" by (simp add: sorted_sort_id)
  have f: "\<lfloor>29 / 20 :: real\<rfloor> = 1" by simp
  have n: "tied_returns ! Suc 0 = tenth" "tied_returns ! Suc (Suc 0) = tenth"
    by (simp_all add: tied_returns_def nth_append)
  have l: "length tied_returns = 30" "tied_returns \<noteq> []"
    by (simp_all add: tied_returns_def)
  show ?thesis
    by (simp add: percentile_def Let_def s l f n)
qed

lemma tied_tail: "filter (\<lambda>r. r \<le> tenth) tied_returns = [tenth, tenth, tenth]"
proof -
  have p: "0 < tenth" by (simp add: tenth_def)
  then have "\<not> 2 * tenth \<le> tenth" by simp
  then show ?thesis
    by (simp add: tied_returns_def numeral_eq_Suc)
qed


text \<open>
  Claim C10, as amended. For a return series with at least 30 observations, \<open>var_95\<close> is
  a finite value and at least one return lies at or below it, so \<open>expected_shortfall\<close> is
  well-defined: it is the float64 mean of those returns. Each of them is at most
  \<open>var_95\<close>, and so is their exact mean; the float64 mean that is reported is rounded
  and is not bounded by \<open>var_95\<close>.
\<close>

theorem expected_shortfall_of_tail:
  assumes "30 \<le> length returns"
  shows "\<exists>v. map_of (calculate_risk_metrics returns) ''var_95'' = Some (Fin v) \<and>
           filter (\<lambda>r. r \<le> v) returns \<noteq> [] \<and>
           mean (filter (\<lambda>r. r \<le> v) returns) \<le> v \<and>
           map_of (calculate_risk_metrics returns) ''expected_shortfall'' =
             Some (Fin (float_mean (filter (\<lambda>r. r \<le> v) returns)))"
proof -
  have ne: "returns \<noteq> []" using assms by auto
  obtain v where v: "percentile returns 5 = Fin v"
    and tail: "filter (\<lambda>r. r \<le> v) returns \<noteq> []"
      "mean (filter (\<lambda>r. r \<le> v) returns) \<le> v"
    and e: "expected_shortfall returns (percentile returns 5) =
              Fin (float_mean (filter (\<lambda>r. r \<le> v) returns))"
    using expected_shortfall_tail [OF ne] by blast
  have "map_of (calculate_risk_metrics returns) ''var_95'' = Some (Fin v)"
    using assms v by (simp add: calculate_risk_metrics_def Let_def)
  moreover have
    "map_of (calculate_risk_metrics returns) ''expected_shortfall'' =
       Some (Fin (float_mean (filter (\<lambda>r. r \<le> v) returns)))"
    using assms e by (simp add: calculate_risk_metrics_def Let_def)
  ultimately show ?thesis using tail by blast
qed

theorem expected_shortfall_of_tail_witness:
  "30 \<le> length (replicate 30 (1 / 64 :: real)) \<and>
   (\<exists>v. map_of (calculate_risk_metrics (replicate 30 (1 / 64))) ''var_95'' = Some (Fin v) \<and>
      filter (\<lambda>r. r \<le> v) (replicate 30 (1 / 64)) \<noteq> [] \<and>
      mean (filter (\<lambda>r. r \<le> v) (replicate 30 (1 / 64))) \<le> v \<and>
      map_of (calculate_risk_metrics (replicate 30 (1 / 64))) ''expected_shortfall'' =
        Some (Fin (float_mean (filter (\<lambda>r. r \<le> v) (replicate 30 (1 / 64))))))"
proof -
  have l: "30 \<le> length (replicate 30 (1 / 64 :: real))" by simp
  from expected_shortfall_of_tail [OF l] l show ?thesis by blast
qed

text \<open>
  The claim as stated fails on the comparison: on three returns of 0.1 followed by
  twenty-seven of 0.2, \<open>var_95\<close> is 0.1 and the selection is the three returns of 0.1.
  Their sum rounds to 0.30000000000000004 and its third to 0.10000000000000002, one
  unit in the last place above \<open>var_95\<close>.
\<close>

theorem expected_shortfall_above_var_counterexample:
  "30 \<le> length tied_returns \<and>
   map_of (calculate_risk_metrics tied_returns) ''var_95'' = Some (Fin tenth) \<and>
   map_of (calculate_risk_metrics tied_returns) ''expected_shortfall'' =
     Some (Fin (tenth + 1 / 2 ^ 56)) \<and>
   \<not> tenth + 1 / 2 ^ 56 \<le> tenth"
proof -
  have l: "30 \<le> length tied_returns" by (simp add: tied_returns_def)
  have e: "expected_shortfall tied_returns (Fin tenth) = Fin (tenth + 1 / 2 ^ 56)"
    by (simp add: expected_shortfall_def tied_tail float_mean_tenths)
  have "map_of (calculate_risk_metrics tied_returns) ''var_95'' = Some (Fin tenth)"
    using l by (simp add: calculate_risk_metrics_def Let_def tied_percentile)
  moreover have "map_of (calculate_risk_metrics tied_returns) ''expected_shortfall'' =
     Some (Fin (tenth + 1 / 2 ^ 56))"
    using l by (simp add: calculate_risk_metrics_def Let_def tied_percentile e)
  ultimately show ?thesis using l by simp
qed

section \<open>Properties of the diversification ratio\<close>











section \<open>Properties of the indicator augmentation\<close>

lemma gains_nonneg: "x \<in> set (gains cs) \<Longrightarrow> 0 \<le> x"
  by (auto simp: gains_def)

lemma losses_nonneg: "x \<in> set (losses cs) \<Longrightarrow> 0 \<le> x"
  by (auto simp: losses_def)

lemma window_subset: "x \<in> set (window w xs i) \<Longrightarrow> x \<in> set xs"
  unfolding window_def by (meson in_set_takeD in_set_dropD)

lemma mean_nonneg:
  assumes "\<And>x. x \<in> set xs \<Longrightarrow> 0 \<le> x"
  shows "0 \<le> mean xs"
  unfolding mean_def using assms by (simp add: sum_list_nonneg)

lemma avg_gain_cases:
  "avg_gain cs i = NaN \<or> (\<exists>g. avg_gain cs i = Fin g \<and> 0 \<le> g)"
proof (cases "i + 1 < 14")
  case True
  then show ?thesis by (simp add: avg_gain_def rolling_mean_def)
next
  case False
  have "0 \<le> mean (window 14 (gains cs) i)"
    by (rule mean_nonneg) (blast intro: gains_nonneg dest: window_subset)
  with False show ?thesis by (simp add: avg_gain_def rolling_mean_def)
qed

lemma avg_loss_cases:
  "avg_loss cs i = NaN \<or> (\<exists>l. avg_loss cs i = Fin l \<and> 0 \<le> l)"
proof (cases "i + 1 < 14")
  case True
  then show ?thesis by (simp add: avg_loss_def rolling_mean_def)
next
  case False
  have "0 \<le> mean (window 14 (losses cs) i)"
    by (rule mean_nonneg) (blast intro: losses_nonneg dest: window_subset)
  with False show ?thesis by (simp add: avg_loss_def rolling_mean_def)
qed

lemma rsi_fin:
  assumes "0 \<le> g" and "0 < l"
  shows "fsub (Fin 100) (fdiv (Fin 100) (fadd (Fin 1) (fdiv (Fin g) (Fin l))))
           = Fin (100 - 100 / (1 + g / l))"
    and "0 \<le> 100 - 100 / (1 + g / l)" and "100 - 100 / (1 + g / l) \<le> 100"
proof -
  have q: "0 \<le> g / l" using assms by simp
  then have d: "0 < 1 + g / l" by linarith
  then show "fsub (Fin 100) (fdiv (Fin 100) (fadd (Fin 1) (fdiv (Fin g) (Fin l))))
           = Fin (100 - 100 / (1 + g / l))"
    using assms(2) by (simp add: fsub_def)
  have "100 / (1 + g / l) \<le> 100 / 1"
    by (rule divide_left_mono) (use q d in simp_all)
  then show "0 \<le> 100 - 100 / (1 + g / l)" by simp
  have "0 \<le> 100 / (1 + g / l)" using d by simp
  then show "100 - 100 / (1 + g / l) \<le> 100" by simp
qed

lemma rsi_range:
  "rsi cs i = NaN \<or> (\<exists>v. rsi cs i = Fin v \<and> 0 \<le> v \<and> v \<le> 100)"
proof -
  consider "avg_gain cs i = NaN" | "avg_loss cs i = NaN"
    | g l where "avg_gain cs i = Fin g" "0 \<le> g" "avg_loss cs i = Fin l" "0 \<le> l"
    using avg_gain_cases [of cs i] avg_loss_cases [of cs i] by blast
  then show ?thesis
  proof cases
    case 1
    then show ?thesis by (simp add: rsi_def fsub_def)
  next
    case 2
    then show ?thesis by (cases "avg_gain cs i") (simp_all add: rsi_def fsub_def)
  next
    case 3
    show ?thesis
    proof (cases "l = 0")
      case True
      then show ?thesis using 3 by (cases "g = 0") (simp_all add: rsi_def fsub_def)
    next
      case False
      then have "0 < l" using 3(4) by simp
      from rsi_fin [OF 3(2) this] show ?thesis
        by (simp only: rsi_def Let_def 3(1) 3(3)) blast
    qed
  qed
qed



lemma rsi_nan_iff:
  "is_nan (rsi cs i) \<longleftrightarrow>
     i + 1 < 14 \<or> (avg_gain cs i = Fin 0 \<and> avg_loss cs i = Fin 0)"
proof (cases "i + 1 < 14")
  case True
  then show ?thesis by (simp add: rsi_def avg_gain_def rolling_mean_def fsub_def)
next
  case False
  then obtain g l where gl: "avg_gain cs i = Fin g" "avg_loss cs i = Fin l"
    by (simp add: avg_gain_def avg_loss_def rolling_mean_def)
  have "0 \<le> g" "0 \<le> l"
    using avg_gain_cases [of cs i] avg_loss_cases [of cs i] gl by auto
  then show ?thesis
    using False rsi_fin(1) [of g l]
    by (cases "l = 0"; cases "g = 0") (auto simp: rsi_def gl fsub_def)
qed

lemma pct_change_nan_iff:
  "is_nan (pct_change xs i) \<longleftrightarrow> i = 0 \<or> (xs ! i = 0 \<and> xs ! (i - 1) = 0)"
  by (simp add: pct_change_def fsub_def)

lemma length_window:
  assumes "i < length xs" and "w \<le> i + 1"
  shows "length (window w xs i) = w"
  using assms by (simp add: window_def)

lemma rolling_mean_fin:
  "w \<le> i + 1 \<Longrightarrow> \<exists>m. rolling_mean w xs i = Fin m"
  by (simp add: rolling_mean_def)

lemma rolling_std_fin:
  assumes "i < length xs" and "w \<le> i + 1" and "2 \<le> w"
  shows "\<exists>s. rolling_std w xs i = Fin s"
  using assms length_window [OF assms(1,2)] by (simp add: rolling_std_def std_def)

lemma has_nan_row_at:
  assumes "i < length bars"
  shows "has_nan (row_at bars i) \<longleftrightarrow>
           i < 49 \<or> is_nan (rsi (map bar_close bars) i) \<or>
           is_nan (pct_change (map bar_close bars) i) \<or>
           is_nan (pct_change (map bar_volume bars) i)"
proof (cases "i < 49")
  case True
  then have "is_nan (SMA_50 (row_at bars i))"
    by (simp add: row_at_def Let_def rolling_mean_def)
  then show ?thesis using True by (simp add: has_nan_def)
next
  case False
  then have i: "50 \<le> i + 1" "20 \<le> i + 1" by simp_all
  obtain m20 where m20: "rolling_mean 20 (map bar_close bars) i = Fin m20"
    using rolling_mean_fin [OF i(2)] by blast
  obtain m50 where m50: "rolling_mean 50 (map bar_close bars) i = Fin m50"
    using rolling_mean_fin [OF i(1)] by blast
  obtain s where s: "rolling_std 20 (map bar_close bars) i = Fin s"
    using rolling_std_fin [of i "map bar_close bars" 20] assms i(2) by auto
  show ?thesis
    using False by (simp add: has_nan_def row_at_def Let_def m20 m50 s fsub_def)
qed

lemma length_filter_from:
  "k \<le> n \<Longrightarrow> length (filter P [0..<n]) = length (filter P [0..<k]) + length (filter P [k..<n])"
proof -
  assume "k \<le> n"
  then have "[0..<n] = [0..<k] @ [k..<n]"
    using upt_add_eq_append [of 0 k "n - k"] by simp
  then show ?thesis by simp
qed

lemma indicator_table_rows:
  "indicator_table bars =
     map (row_at bars) (filter (\<lambda>i. \<not> has_nan (row_at bars i)) [0..<length bars])"
  by (simp add: indicator_table_def filter_map comp_def)

lemma indicator_table_from_49:
  assumes "49 \<le> length bars"
  shows "indicator_table bars =
     map (row_at bars) (filter (\<lambda>i. \<not> has_nan (row_at bars i)) [49..<length bars])"
proof -
  have split: "[0..<length bars] = [0..<49] @ [49..<length bars]"
    using upt_add_eq_append [of 0 49 "length bars - 49"] assms by simp
  have "filter (\<lambda>i. \<not> has_nan (row_at bars i)) [0..<49] = []"
    using assms by (auto simp: filter_empty_conv has_nan_row_at)
  then show ?thesis
    unfolding indicator_table_rows by (subst split) simp
qed

lemma indicator_table_length_le:
  assumes "49 \<le> length bars"
  shows "length (indicator_table bars) \<le> length bars - 49"
proof -
  have "length (filter (\<lambda>i. \<not> has_nan (row_at bars i)) [49..<length bars])
          \<le> length [49..<length bars]"
    by (rule length_filter_le)
  then show ?thesis by (simp add: indicator_table_from_49 [OF assms])
qed

lemma indicator_table_length_full:
  assumes "49 \<le> length bars"
    and "list_all (\<lambda>i. (avg_gain (map bar_close bars) i \<noteq> Fin 0 \<or>
                          avg_loss (map bar_close bars) i \<noteq> Fin 0) \<and>
                        (bar_close (bars ! i) \<noteq> 0 \<or> bar_close (bars ! (i - 1)) \<noteq> 0) \<and>
                        (bar_volume (bars ! i) \<noteq> 0 \<or> bar_volume (bars ! (i - 1)) \<noteq> 0))
           [49..<length bars]"
  shows "length (indicator_table bars) = length bars - 49"
proof -
  have "\<forall>i\<in>set [49..<length bars]. \<not> has_nan (row_at bars i)"
  proof (intro ballI notI)
    fix i assume i: "i \<in> set [49..<length bars]" and h: "has_nan (row_at bars i)"
    have il: "i < length bars" "49 \<le> i" using i by auto
    then have im: "i - 1 < length bars" by simp
    from assms(2) i have ok:
      "avg_gain (map bar_close bars) i \<noteq> Fin 0 \<or> avg_loss (map bar_close bars) i \<noteq> Fin 0"
      "bar_close (bars ! i) \<noteq> 0 \<or> bar_close (bars ! (i - 1)) \<noteq> 0"
      "bar_volume (bars ! i) \<noteq> 0 \<or> bar_volume (bars ! (i - 1)) \<noteq> 0"
      by (auto simp: list_all_iff)
    from h il ok im show False
      by (auto simp: has_nan_row_at rsi_nan_iff pct_change_nan_iff)
  qed
  then have "filter (\<lambda>i. \<not> has_nan (row_at bars i)) [49..<length bars] = [49..<length bars]"
    by (rule filter_True)
  then show ?thesis by (simp add: indicator_table_from_49 [OF assms(1)])
qed

lemma mean_zero:
  assumes "\<And>x. x \<in> set xs \<Longrightarrow> x = 0"
  shows "mean xs = 0"
proof -
  have "sum_list xs = 0" using assms by (induction xs) auto
  then show ?thesis by (simp add: mean_def)
qed

lemma gains_flat: "x \<in> set (gains (replicate n c)) \<Longrightarrow> x = 0"
  by (auto simp: gains_def)

lemma losses_flat: "x \<in> set (losses (replicate n c)) \<Longrightarrow> x = 0"
  by (auto simp: losses_def)

lemma rsi_flat: "is_nan (rsi (replicate n c) i)"
proof (cases "i + 1 < 14")
  case True
  then show ?thesis by (simp add: rsi_nan_iff)
next
  case False
  have "mean (window 14 (gains (replicate n c)) i) = 0"
    by (rule mean_zero) (blast dest: window_subset gains_flat)
  moreover have "mean (window 14 (losses (replicate n c)) i) = 0"
    by (rule mean_zero) (blast dest: window_subset losses_flat)
  ultimately show ?thesis
    using False by (simp add: rsi_nan_iff avg_gain_def avg_loss_def rolling_mean_def)
qed

lemma indicator_table_flat:
  assumes "map bar_close bars = replicate (length bars) c"
  shows "indicator_table bars = []"
  unfolding indicator_table_rows
  using rsi_flat [of "length bars" c] assms
  by (auto simp: filter_empty_conv has_nan_row_at)



lemma rising_gain: "avg_gain (map bar_close (rising_bars 50)) 49 = Fin 1"
  by code_simp

lemma rising_loss: "avg_loss (map bar_close (rising_bars 50)) 49 = Fin 0"
  by code_simp

lemma rising_complete:
  "list_all (\<lambda>i. (avg_gain (map bar_close (rising_bars 50)) i \<noteq> Fin 0 \<or>
                    avg_loss (map bar_close (rising_bars 50)) i \<noteq> Fin 0) \<and>
                  (bar_close (rising_bars 50 ! i) \<noteq> 0 \<or>
                   bar_close (rising_bars 50 ! (i - 1)) \<noteq> 0) \<and>
                  (bar_volume (rising_bars 50 ! i) \<noteq> 0 \<or>
                   bar_volume (rising_bars 50 ! (i - 1)) \<noteq> 0))
     [49..<length (rising_bars 50)]"
proof -
  have l: "[49..<length (rising_bars 50)] = [49]" by (simp add: rising_bars_def)
  have "bar_volume (rising_bars 50 ! 49) \<noteq> 0" "bar_close (rising_bars 50 ! 49) \<noteq> 0"
    by (simp_all add: rising_bars_def)
  then show ?thesis unfolding l by (simp add: rising_gain)
qed

lemma flat_closes: "map bar_close (flat_bars n) = replicate (length (flat_bars n)) 100"
  by (simp add: flat_bars_def comp_def map_replicate_const)

text \<open>
  Claim C6, as amended. For a raw series with at least 50 bars the augmented table has at
  most \<open>len - 49\<close> rows: the first 49 rows are dropped for the 50-day average, and a later
  row is dropped as well when its RSI is NaN (no price move in its 14 differences), or
  its price or volume change is NaN (two consecutive zeros). When no row from index 49 on
  is of that kind, the table has exactly \<open>len - 49\<close> rows.
\<close>

theorem indicator_rows_count:
  assumes "50 \<le> length bars"
  shows "length (indicator_table bars) \<le> length bars - 49 \<and>
         (list_all (\<lambda>i. (avg_gain (map bar_close bars) i \<noteq> Fin 0 \<or>
                           avg_loss (map bar_close bars) i \<noteq> Fin 0) \<and>
                         (bar_close (bars ! i) \<noteq> 0 \<or> bar_close (bars ! (i - 1)) \<noteq> 0) \<and>
                         (bar_volume (bars ! i) \<noteq> 0 \<or> bar_volume (bars ! (i - 1)) \<noteq> 0))
            [49..<length bars] \<longrightarrow>
          length (indicator_table bars) = length bars - 49)"
proof -
  have l: "49 \<le> length bars" using assms by simp
  show ?thesis
    using indicator_table_length_le [OF l] indicator_table_length_full [OF l] by blast
qed

theorem indicator_rows_count_witness:
  "50 \<le> length (rising_bars 50) \<and>
   list_all (\<lambda>i. (avg_gain (map bar_close (rising_bars 50)) i \<noteq> Fin 0 \<or>
                    avg_loss (map bar_close (rising_bars 50)) i \<noteq> Fin 0) \<and>
                  (bar_close (rising_bars 50 ! i) \<noteq> 0 \<or>
                   bar_close (rising_bars 50 ! (i - 1)) \<noteq> 0) \<and>
                  (bar_volume (rising_bars 50 ! i) \<noteq> 0 \<or>
                   bar_volume (rising_bars 50 ! (i - 1)) \<noteq> 0))
     [49..<length (rising_bars 50)] \<and>
   length (indicator_table (rising_bars 50)) = 1"
proof -
  have l: "50 \<le> length (rising_bars 50)" by (simp add: rising_bars_def)
  have "length (rising_bars 50) - 49 = 1" by (simp add: rising_bars_def)
  with indicator_rows_count [OF l] rising_complete l show ?thesis by simp
qed

text \<open>
  The claim as stated, for every series with at least 50 bars, fails on a series whose
  close never moves: every average gain and loss is 0, every RSI is 0/0, and
  \<open>dropna\<close> removes all 50 rows instead of leaving one.
\<close>

theorem indicator_rows_count_counterexample:
  "50 \<le> length (flat_bars 50) \<and> indicator_table (flat_bars 50) = [] \<and>
   length (indicator_table (flat_bars 50)) \<noteq> length (flat_bars 50) - 49"
  using indicator_table_flat [OF flat_closes, of 50] by (simp add: flat_bars_def)





section \<open>Properties of the model registry and the forecast\<close>

subsection \<open>What a call keeps\<close>

lemma get_stock_data_keeps:
  assumes "get_stock_data L s symbol = (s1, r)"
  shows "models s1 = models s" and "disk s1 = disk s" and "scaler s1 = scaler s"
  using assms
  by (auto simp: get_stock_data_def Let_def split: option.splits sum.splits)

lemma get_stock_data_cached:
  assumes "get_stock_data L s symbol = (s1, Inr data)"
  shows "data_cache s1 symbol = Some data"
  using assms
  by (auto simp: get_stock_data_def Let_def split: option.splits sum.splits)

lemma prepare_data_keeps:
  assumes "prepare_data L s data = (s1, r)"
  shows "models s1 = models s" and "disk s1 = disk s" and "data_cache s1 = data_cache s"
  using assms
  by (auto simp: prepare_data_def Let_def split: sum.splits if_splits)

lemma check_array_rows:
  assumes "check_array (map select_features data) = Inr X"
  shows "data \<noteq> []" and "length X = length data" and "\<And>row. row \<in> set X \<Longrightarrow> length row = 14"
  using assms
  by (auto simp: check_array_def select_features_def split: if_splits)

lemma scaler_fit_features:
  assumes "scaler_fit L data = Inr sc"
  shows "sc_n_features sc = 14"
proof -
  from assms obtain X where X: "check_array (map select_features data) = Inr X"
    and sc: "sc = \<lparr>sc_n_features = length (hd X), sc_state = lib_scaler_fit L X\<rparr>"
    by (auto simp: scaler_fit_def split: sum.splits)
  have "X \<noteq> []" using check_array_rows(1,2) [OF X] by auto
  then have "hd X \<in> set X" by simp
  then show ?thesis using check_array_rows(3) [OF X] sc by simp
qed

lemma prepare_data_scaler:
  assumes "prepare_data L s data = (s1, r)"
  shows "scaler s1 = None \<or> (\<exists>sc. scaler s1 = Some sc \<and> sc_n_features sc = 14)"
  using assms scaler_fit_features [of L data]
  by (auto simp: prepare_data_def Let_def split: sum.splits if_splits)

lemma prepare_data_fitted:
  assumes "prepare_data L s data = (s1, Inr Xy)"
  shows "\<exists>sc. scaler s1 = Some sc \<and> sc_n_features sc = 14"
  using assms scaler_fit_features [of L data]
  by (auto simp: prepare_data_def Let_def split: sum.splits if_splits)

text \<open>
  What does hold of a failing call: it leaves the dict of models and the files as they
  were, provided the write to disk works; and a call that succeeds has stored the entry
  with the metrics of its evaluation.
\<close>

lemma train_model_failure:
  assumes "lib_dump L (model_key symbol model_type) = None"
    and "train_model L s symbol model_type = (s', Inl e)"
  shows "models s' = models s \<and> disk s' = disk s"
proof -
  obtain s1 r1 where g: "get_stock_data L s symbol = (s1, r1)" by (cases "get_stock_data L s symbol")
  note k1 = get_stock_data_keeps [OF g]
  show ?thesis
  proof (cases r1)
    case (Inl e1)
    with g assms(2) k1 show ?thesis by (simp add: train_model_def)
  next
    case (Inr data)
    obtain s2 r2 where p: "prepare_data L s1 data = (s2, r2)" by (cases "prepare_data L s1 data")
    note k2 = prepare_data_keeps [OF p]
    show ?thesis
    proof (cases r2)
      case (Inl e2)
      with g Inr p assms(2) k1 k2 show ?thesis by (simp add: train_model_def)
    next
      case r2: (Inr Xy)
      obtain X y where Xy: "Xy = (X, y)" by (cases Xy)
      show ?thesis
      proof (cases "fit_and_evaluate L model_type X y")
        case (Inl e3)
        with g Inr p r2 Xy assms(2) k1 k2 show ?thesis by (simp add: train_model_def)
      next
        case f: (Inr res)
        obtain m mse mae where "res = (m, mse, mae)" by (cases res)
        with g Inr p r2 Xy f assms show ?thesis
          by (simp add: train_model_def Let_def)
      qed
    qed
  qed
qed

lemma train_model_success:
  assumes "train_model L s symbol model_type = (s', Inr r)"
  shows "\<exists>X y m. fit_and_evaluate L model_type X y = Inr (m, tr_mse r, tr_mae r) \<and>
           models s' (model_key symbol model_type) =
             Some \<lparr>art_model = m, art_scaler = Shared, art_mse = tr_mse r, art_mae = tr_mae r,
                   last_trained = lib_now L\<rparr>"
  using assms
  by (auto simp: train_model_def Let_def split: prod.splits sum.splits option.splits) blast

subsection \<open>Every scaler is fitted on the fourteen feature columns\<close>

lemma get_stock_data_fitted:
  assumes "fitted_on_features s"
  shows "fitted_on_features (fst (get_stock_data L s symbol))"
proof -
  obtain s1 r where g: "get_stock_data L s symbol = (s1, r)" by (cases "get_stock_data L s symbol")
  show ?thesis
    using assms get_stock_data_keeps [OF g] g by (simp add: fitted_on_features_def)
qed

lemma train_model_fitted:
  assumes "fitted_on_features s"
  shows "fitted_on_features (fst (train_model L s symbol model_type))"
proof -
  obtain s1 r1 where g: "get_stock_data L s symbol = (s1, r1)" by (cases "get_stock_data L s symbol")
  have f1: "fitted_on_features s1"
    using get_stock_data_fitted [OF assms, of L symbol] g by simp
  show ?thesis
  proof (cases r1)
    case (Inl e1)
    with g f1 show ?thesis by (simp add: train_model_def)
  next
    case (Inr data)
    obtain s2 r2 where p: "prepare_data L s1 data = (s2, r2)" by (cases "prepare_data L s1 data")
    have f2: "fitted_on_features s2"
      using f1 prepare_data_keeps [OF p] prepare_data_scaler [OF p]
      by (auto simp: fitted_on_features_def)
    show ?thesis
    proof (cases r2)
      case (Inl e2)
      with g Inr p f2 show ?thesis by (simp add: train_model_def)
    next
      case r2: (Inr Xy)
      obtain X y where Xy: "Xy = (X, y)" by (cases Xy)
      show ?thesis
      proof (cases "fit_and_evaluate L model_type X y")
        case (Inl e3)
        with g Inr p r2 Xy f2 show ?thesis by (simp add: train_model_def)
      next
        case f: (Inr res)
        obtain m mse mae where res: "res = (m, mse, mae)" by (cases res)
        show ?thesis
          using g Inr p r2 Xy f res f2
          by (auto simp: train_model_def Let_def fitted_on_features_def pickled_def
              split: option.splits if_splits)
      qed
    qed
  qed
qed

lemma load_or_train_fitted:
  assumes "fitted_on_features s"
  shows "fitted_on_features (fst (load_or_train L s symbol model_type))"
  using assms train_model_fitted [OF assms, of L symbol model_type]
  by (auto simp: load_or_train_def Let_def fitted_on_features_def split: option.splits)

lemma predict_fitted:
  assumes "fitted_on_features s"
  shows "fitted_on_features (fst (predict L s symbol days model_type))"
proof -
  obtain s1 r1 where l: "load_or_train L s symbol model_type = (s1, r1)"
    by (cases "load_or_train L s symbol model_type")
  have f1: "fitted_on_features s1"
    using load_or_train_fitted [OF assms, of L symbol model_type] l by simp
  obtain s2 r2 where g: "get_stock_data L s1 symbol = (s2, r2)"
    by (cases "get_stock_data L s1 symbol")
  have f2: "fitted_on_features s2"
    using get_stock_data_fitted [OF f1, of L symbol] g by simp
  show ?thesis
    using l g f1 f2
    by (auto simp: predict_def split: option.splits sum.splits)
qed

lemma reachable_fitted: "reachable s \<Longrightarrow> fitted_on_features s"
proof (induction rule: reachable.induct)
  case (start files)
  then show ?case by (fastforce simp: fitted_on_features_def new_predictor_def)
next
  case (trained s L symbol model_type)
  then show ?case by (simp add: train_model_fitted)
next
  case (predicted s L symbol days model_type)
  then show ?case by (simp add: predict_fitted)
next
  case (fetched s L symbol)
  then show ?case by (simp add: get_stock_data_fitted)
qed

subsection \<open>The forecast\<close>

lemma inverse_transform_column:
  assumes "sc_n_features sc = 14"
  shows "\<exists>e. scaler_inverse_transform L sc (map (\<lambda>p. [p]) preds) = Inl e"
  using assms by (cases preds) (simp_all add: scaler_inverse_transform_def)

lemma forecast_from_error:
  assumes "\<And>sc. scaler_of s a = Some sc \<Longrightarrow> sc_n_features sc = 14"
  shows "\<exists>e. forecast_from L s a data symbol days model_type = Inl e"
proof (cases "scaler_of s a")
  case None
  then show ?thesis by (simp add: forecast_from_def)
next
  case (Some sc)
  have n: "sc_n_features sc = 14" using assms Some by simp
  show ?thesis
  proof (cases "scaler_transform L sc (drop (length data - 60) data)")
    case (Inl e)
    then show ?thesis using Some by (simp add: forecast_from_def)
  next
    case t: (Inr scaled_data)
    show ?thesis
    proof (cases "rollout L (art_model a) (nat days) (last scaled_data)")
      case (Inl e)
      then show ?thesis using Some t by (simp add: forecast_from_def)
    next
      case (Inr preds)
      obtain e where "scaler_inverse_transform L sc (map (\<lambda>p. [p]) preds) = Inl e"
        using inverse_transform_column [OF n] by blast
      then show ?thesis using Some t Inr by (simp add: forecast_from_def)
    qed
  qed
qed

lemma predict_error:
  assumes "fitted_on_features s"
  shows "\<exists>e. snd (predict L s symbol days model_type) = Inl e"
proof -
  obtain s1 r1 where l: "load_or_train L s symbol model_type = (s1, r1)"
    by (cases "load_or_train L s symbol model_type")
  have f1: "fitted_on_features s1"
    using load_or_train_fitted [OF assms, of L symbol model_type] l by simp
  show ?thesis
  proof (cases r1)
    case (Some e)
    with l show ?thesis by (simp add: predict_def)
  next
    case None
    show ?thesis
    proof (cases "models s1 (model_key symbol model_type)")
      case n: None
      with l None show ?thesis by (simp add: predict_def)
    next
      case a: (Some a)
      obtain s2 r2 where g: "get_stock_data L s1 symbol = (s2, r2)"
        by (cases "get_stock_data L s1 symbol")
      note k = get_stock_data_keeps [OF g]
      show ?thesis
      proof (cases r2)
        case (Inl e)
        with l None a g show ?thesis by (simp add: predict_def)
      next
        case (Inr data)
        have "sc_n_features sc = 14" if "scaler_of s2 a = Some sc" for sc
          using that f1 a k by (auto simp: scaler_of_def fitted_on_features_def
              split: scaler_ref.splits)
        then obtain e where "forecast_from L s2 a data symbol days model_type = Inl e"
          using forecast_from_error [of s2 a L data symbol days model_type] by blast
        with l None a g Inr show ?thesis by (simp add: predict_def)
      qed
    qed
  qed
qed

text \<open>
  Claim C2 (not met by the code). In every state a predictor can reach, and whatever the
  library computes, \<open>predict\<close> ends in the error result: no forecast is returned, for no
  value of \<open>days\<close>, so \<open>days = 7\<close> yields no (date, price) pair at all. With \<open>days > 0\<close>
  the estimator, fitted on windows of 60 rows flattened into 840 columns, is given the
  last scaled row alone, 14 columns, and rejects it. With \<open>days \<le> 0\<close> the loop does not
  run, and the scaler, fitted on 14 columns, is given an empty array of one column, which
  it rejects as well; \<open>predict\<close> itself makes no check on \<open>days\<close>.
\<close>

theorem predict_returns_error:
  assumes "reachable s"
  shows "\<exists>e. snd (predict L s symbol days model_type) = Inl e"
  using assms by (intro predict_error reachable_fitted)

theorem predict_returns_error_witness:
  "reachable (new_predictor Map.empty :: (unit, nat) predictor) \<and>
   (\<exists>e. snd (predict sample_lib (new_predictor Map.empty) ''AAPL'' 7 ''linear'') = Inl e) \<and>
   (\<exists>e. snd (predict sample_lib (new_predictor Map.empty) ''AAPL'' 0 ''linear'') = Inl e)"
proof -
  have r: "reachable (new_predictor Map.empty :: (unit, nat) predictor)"
    by (rule reachable.start) simp
  from predict_returns_error [OF r, of sample_lib "''AAPL''" 7 "''linear''"]
    predict_returns_error [OF r, of sample_lib "''AAPL''" 0 "''linear''"] r
  show ?thesis by blast
qed


subsection \<open>Training on a table that is long enough\<close>

lemma length_concat_rows:
  "(\<And>row. row \<in> set w \<Longrightarrow> length row = k) \<Longrightarrow> length (concat w) = length w * k"
  by (induction w) simp_all

lemma check_array_finite:
  assumes "data \<noteq> []" and "list_all (\<lambda>r. list_all is_finite (select_features r)) data"
  shows "check_array (map select_features data) =
           Inr (map (\<lambda>r. map the_real (select_features r)) data)"
  using assms by (simp add: check_array_def list_all_iff)

lemma scaler_fit_finite:
  assumes "data \<noteq> []" and "list_all (\<lambda>r. list_all is_finite (select_features r)) data"
  shows "scaler_fit L data =
           Inr \<lparr>sc_n_features = 14,
                sc_state = lib_scaler_fit L (map (\<lambda>r. map the_real (select_features r)) data)\<rparr>"
proof -
  have "length (hd (map (\<lambda>r. map the_real (select_features r)) data)) = 14"
    using assms(1) by (simp add: hd_map select_features_def)
  then show ?thesis
    by (simp add: scaler_fit_def check_array_finite [OF assms])
qed

lemma scaler_transform_finite:
  assumes "data \<noteq> []" and "list_all (\<lambda>r. list_all is_finite (select_features r)) data"
    and "sc_n_features sc = 14"
  shows "\<exists>scaled. scaler_transform L sc data = Inr scaled \<and> length scaled = length data \<and>
           (\<forall>row \<in> set scaled. length row = 14)"
proof -
  have "list_all (\<lambda>row. length row = sc_n_features sc)
          (map (\<lambda>r. map the_real (select_features r)) data)"
    using assms(3) by (simp add: list_all_iff select_features_def)
  then show ?thesis
    by (auto simp: scaler_transform_def check_array_finite [OF assms(1,2)] select_features_def)
qed

lemma prepare_data_finite:
  assumes "data \<noteq> []" and "list_all (\<lambda>r. list_all is_finite (select_features r)) data"
  shows "\<exists>X y. prepare_data L s data =
           (s\<lparr>scaler := Some \<lparr>sc_n_features = 14,
                sc_state = lib_scaler_fit L (map (\<lambda>r. map the_real (select_features r)) data)\<rparr>\<rparr>,
            Inr (X, y)) \<and>
           length X = length data - 60 \<and> length y = length data - 60 \<and>
           (\<forall>w \<in> set X. length (concat w) = 840)"
proof -
  let ?sc = "\<lparr>sc_n_features = 14,
      sc_state = lib_scaler_fit L (map (\<lambda>r. map the_real (select_features r)) data)\<rparr>"
  obtain scaled where t: "scaler_transform L ?sc data = Inr scaled"
    and l: "length scaled = length data" and r: "\<forall>row \<in> set scaled. length row = 14"
    using scaler_transform_finite [OF assms, of ?sc L] by auto
  let ?X = "map (\<lambda>i. take 60 (drop (i - 60) scaled)) [60..<length scaled]"
  let ?y = "map (\<lambda>i. scaled ! i ! 3) [60..<length scaled]"
  have c: "list_all (\<lambda>i. 3 < length (scaled ! i)) [60..<length scaled]"
    using r by (simp add: list_all_iff)
  have p: "prepare_data L s data = (s\<lparr>scaler := Some ?sc\<rparr>, Inr (?X, ?y))"
    using c by (simp add: prepare_data_def scaler_fit_finite [OF assms] t Let_def)
  have "length (concat w) = 840" if "w \<in> set ?X" for w
  proof -
    from that obtain i where i: "60 \<le> i" "i < length scaled"
      and w: "w = take 60 (drop (i - 60) scaled)" by auto
    have "length w = 60" using i w by simp
    moreover have "length row = 14" if "row \<in> set w" for row
      using that r w by (meson in_set_dropD in_set_takeD)
    ultimately show ?thesis using length_concat_rows [of w 14] by simp
  qed
  then show ?thesis using p l by auto
qed

lemma fit_and_evaluate_trains:
  assumes "100 \<le> length X" and "length y = length X"
    and "\<forall>w \<in> set X. length (concat w) = 840"
    and "model_type = ''linear'' \<or> model_type = ''ensemble''"
    and "\<And>Z z. \<exists>m. lib_model_fit L model_type Z z = Inr m"
  shows "\<exists>m mse mae. fit_and_evaluate L model_type X y = Inr (m, mse, mae) \<and>
           est_n_features m = 840"
proof -
  define split where "split = (length X * 4) div 5"
  define X_train where "X_train = map concat (take split X)"
  define X_test where "X_test = map concat (drop split X)"
  have s: "0 < split" "split < length X" using assms(1) by (simp_all add: split_def)
  have tr: "X_train \<noteq> []" "length X_train = length (take split y)"
    using s assms(2) by (auto simp: X_train_def)
  have "hd X_train \<in> set X_train" using tr(1) by simp
  then have h: "length (hd X_train) = 840"
    using assms(3) by (auto simp: X_train_def dest: in_set_takeD)
  obtain st where st: "lib_model_fit L model_type X_train (take split y) = Inr st"
    using assms(5) by blast
  let ?m = "\<lparr>est_n_features = 840, est_state = st\<rparr>"
  have f: "model_fit L model_type X_train (take split y) = Inr ?m"
    using tr h by (simp add: model_fit_def st)
  have te: "X_test \<noteq> []" "list_all (\<lambda>row. length row = 840) X_test"
    using s assms(3) by (auto simp: X_test_def list_all_iff dest: in_set_dropD)
  have p: "model_predict L ?m X_test = Inr (map (lib_model_predict L st) X_test)"
    using te by (simp add: model_predict_def)
  have ly: "drop split y \<noteq> []"
    "length (drop split y) = length (map (lib_model_predict L st) X_test)"
    using s assms(2) by (simp_all add: X_test_def)
  have "fit_and_evaluate L model_type X y =
          Inr (?m,
               mean (map2 (\<lambda>a b. (a - b)\<^sup>2) (drop split y) (map (lib_model_predict L st) X_test)),
               mean (map2 (\<lambda>a b. \<bar>a - b\<bar>) (drop split y) (map (lib_model_predict L st) X_test)))"
    using assms(1,4) f p ly
    by (simp add: fit_and_evaluate_def Let_def mean_squared_error_def mean_absolute_error_def
        split_def [symmetric] X_train_def [symmetric] X_test_def [symmetric])
  then show ?thesis by simp
qed

lemma train_model_trains:
  assumes g: "get_stock_data L s symbol = (s1, Inr data)"
    and fin: "list_all (\<lambda>r. list_all is_finite (select_features r)) data"
    and len: "160 \<le> length data"
    and kind: "model_type = ''linear'' \<or> model_type = ''ensemble''"
    and fit: "\<And>Z z. \<exists>m. lib_model_fit L model_type Z z = Inr m"
  shows "\<exists>s' res a. train_model L s symbol model_type = (s', res) \<and>
           res = (case lib_dump L (model_key symbol model_type) of
                    Some e \<Rightarrow> Inl e
                  | None \<Rightarrow> Inr \<lparr>tr_symbol = symbol, tr_model_type = model_type,
                                 tr_mse = art_mse a, tr_mae = art_mae a\<rparr>) \<and>
           models s' (model_key symbol model_type) = Some a \<and>
           art_scaler a = Shared \<and> est_n_features (art_model a) = 840 \<and>
           last_trained a = lib_now L \<and>
           scaler s' = Some \<lparr>sc_n_features = 14,
             sc_state = lib_scaler_fit L (map (\<lambda>r. map the_real (select_features r)) data)\<rparr> \<and>
           data_cache s' = data_cache s1"
proof -
  let ?sc = "\<lparr>sc_n_features = 14,
      sc_state = lib_scaler_fit L (map (\<lambda>r. map the_real (select_features r)) data)\<rparr>"
  have ne: "data \<noteq> []" using len by auto
  obtain X y where p: "prepare_data L s1 data = (s1\<lparr>scaler := Some ?sc\<rparr>, Inr (X, y))"
    and l: "length X = length data - 60" "length y = length data - 60"
    and w: "\<forall>w \<in> set X. length (concat w) = 840"
    using prepare_data_finite [OF ne fin, of L s1] by blast
  have lx: "100 \<le> length X" "length y = length X" using l len by simp_all
  obtain m mse mae where f: "fit_and_evaluate L model_type X y = Inr (m, mse, mae)"
    and n: "est_n_features m = 840"
    using fit_and_evaluate_trains [OF lx w kind fit] by blast
  let ?a = "\<lparr>art_model = m, art_scaler = Shared, art_mse = mse, art_mae = mae,
             last_trained = lib_now L\<rparr>"
  show ?thesis
  proof (cases "lib_dump L (model_key symbol model_type)")
    case None
    then show ?thesis
      using g p f n by (simp add: train_model_def Let_def)
  next
    case (Some e)
    then show ?thesis
      using g p f n by (simp add: train_model_def Let_def)
  qed
qed

lemma train_model_unsupported:
  assumes g: "get_stock_data L s symbol = (s1, Inr data)"
    and fin: "list_all (\<lambda>r. list_all is_finite (select_features r)) data"
    and len: "160 \<le> length data"
    and kind: "model_type \<noteq> ''linear''" "model_type \<noteq> ''ensemble''"
  shows "train_model L s symbol model_type =
           (s1\<lparr>scaler := Some \<lparr>sc_n_features = 14,
                sc_state = lib_scaler_fit L (map (\<lambda>r. map the_real (select_features r)) data)\<rparr>\<rparr>,
            Inl (ValueError (''Unsupported model type: '' @ model_type)))"
proof -
  have ne: "data \<noteq> []" using len by auto
  obtain X y where p: "prepare_data L s1 data =
      (s1\<lparr>scaler := Some \<lparr>sc_n_features = 14,
          sc_state = lib_scaler_fit L (map (\<lambda>r. map the_real (select_features r)) data)\<rparr>\<rparr>,
       Inr (X, y))"
    and l: "length X = length data - 60"
    using prepare_data_finite [OF ne fin, of L s1] by blast
  have "fit_and_evaluate L model_type X y =
          Inl (ValueError (''Unsupported model type: '' @ model_type))"
    using l len kind by (simp add: fit_and_evaluate_def Let_def)
  then show ?thesis using g p by (simp add: train_model_def)
qed

subsection \<open>The table of the rising series\<close>

lemma sum_list_const:
  fixes c :: real
  shows "(\<And>x. x \<in> set xs \<Longrightarrow> x = c) \<Longrightarrow> sum_list xs = real (length xs) * c"
  by (induction xs) (simp_all add: algebra_simps)

lemma rising_closes:
  "length (map bar_close (rising_bars n)) = n"
  "i < n \<Longrightarrow> map bar_close (rising_bars n) ! i = 101 + real i"
  by (simp_all add: rising_bars_def)

lemma gains_nth:
  assumes "k < length cs"
  shows "gains cs ! k =
           (if 0 < k \<and> 0 < cs ! k - cs ! (k - 1) then cs ! k - cs ! (k - 1) else 0)"
  using assms by (simp add: gains_def)

lemma rising_gains:
  assumes "0 < k" and "k < n"
  shows "gains (map bar_close (rising_bars n)) ! k = 1"
proof -
  let ?cs = "map bar_close (rising_bars n)"
  have "k - 1 < n" using assms by simp
  then have a: "?cs ! (k - 1) = 101 + real (k - 1)"
    by (rule rising_closes(2))
  have b: "?cs ! k = 101 + real k"
    using assms(2) by (rule rising_closes(2))
  have "real (k - 1) = real k - 1" using assms(1) by (simp add: of_nat_diff)
  then have d: "?cs ! k - ?cs ! (k - 1) = 1" using a b by simp
  have "k < length ?cs" using assms(2) by (simp add: rising_bars_def)
  then have "gains ?cs ! k =
      (if 0 < k \<and> 0 < ?cs ! k - ?cs ! (k - 1) then ?cs ! k - ?cs ! (k - 1) else 0)"
    by (rule gains_nth)
  then show ?thesis using assms(1) by (simp only: d) simp
qed

lemma rising_avg_gain:
  assumes "14 \<le> i" and "i < n"
  shows "avg_gain (map bar_close (rising_bars n)) i = Fin 1"
proof -
  let ?g = "gains (map bar_close (rising_bars n))"
  have lg: "length ?g = n" by (simp add: gains_def rising_bars_def)
  have lw: "length (window 14 ?g i) = 14"
    using assms lg by (simp add: length_window)
  have "x = 1" if "x \<in> set (window 14 ?g i)" for x
  proof -
    from that have "x \<in> set (drop (i + 1 - 14) ?g)"
      unfolding window_def by (rule in_set_takeD)
    then obtain j where j: "j < length (drop (i + 1 - 14) ?g)"
      "x = drop (i + 1 - 14) ?g ! j"
      by (auto simp: in_set_conv_nth)
    define k where "k = i + 1 - 14 + j"
    have "0 < k" "k < n" using assms lg j(1) by (simp_all add: k_def)
    moreover have "x = ?g ! k" using j lg assms by (simp add: k_def)
    ultimately show ?thesis using rising_gains by simp
  qed
  then have "sum_list (window 14 ?g i) = real (length (window 14 ?g i)) * 1"
    by (rule sum_list_const)
  then have "mean (window 14 ?g i) = 1" by (simp add: mean_def lw)
  then show ?thesis using assms by (simp add: avg_gain_def rolling_mean_def)
qed

lemma rising_row_kept:
  assumes "49 \<le> i" and "i < n"
  shows "\<not> has_nan (row_at (rising_bars n) i)"
proof -
  have "avg_gain (map bar_close (rising_bars n)) i = Fin 1"
    using assms by (intro rising_avg_gain) simp_all
  moreover have "bar_close (rising_bars n ! i) \<noteq> 0" "bar_volume (rising_bars n ! i) \<noteq> 0"
    using assms(2) by (simp_all add: rising_bars_def add_nonneg_eq_0_iff)
  ultimately show ?thesis
    using assms by (simp add: has_nan_row_at rising_bars_def rsi_nan_iff pct_change_nan_iff)
qed

lemma rising_table_rows:
  assumes "49 \<le> n"
  shows "indicator_table (rising_bars n) = map (row_at (rising_bars n)) [49..<n]"
proof -
  have l: "length (rising_bars n) = n" by (simp add: rising_bars_def)
  have "\<forall>i \<in> set [49..<n]. \<not> has_nan (row_at (rising_bars n) i)"
    using rising_row_kept by simp
  then have "filter (\<lambda>i. \<not> has_nan (row_at (rising_bars n) i)) [49..<n] = [49..<n]"
    by (rule filter_True)
  then show ?thesis
    using indicator_table_from_49 [of "rising_bars n"] assms l by simp
qed

lemma row_finite:
  assumes "i < length bars" and "49 \<le> i" and "\<not> has_nan (row_at bars i)"
    and "bar_close (bars ! (i - 1)) \<noteq> 0" and "bar_volume (bars ! (i - 1)) \<noteq> 0"
  shows "list_all is_finite (select_features (row_at bars i))"
proof -
  have i: "50 \<le> i + 1" "20 \<le> i + 1" "i \<noteq> 0" using assms(2) by simp_all
  have p: "i - 1 < length bars" using assms(1) by simp
  obtain m20 where m20: "rolling_mean 20 (map bar_close bars) i = Fin m20"
    using rolling_mean_fin [OF i(2)] by blast
  obtain m50 where m50: "rolling_mean 50 (map bar_close bars) i = Fin m50"
    using rolling_mean_fin [OF i(1)] by blast
  obtain sd where sd: "rolling_std 20 (map bar_close bars) i = Fin sd"
    using rolling_std_fin [of i "map bar_close bars" 20] assms(1) i(2) by auto
  have "\<not> is_nan (rsi (map bar_close bars) i)"
    using assms(1,3) by (simp add: has_nan_row_at)
  then obtain v where v: "rsi (map bar_close bars) i = Fin v"
    using rsi_range [of "map bar_close bars" i] by auto
  have pc: "pct_change (map bar_close bars) i =
      Fin (bar_close (bars ! i) / bar_close (bars ! (i - 1)) - 1)"
    using assms(1,4) i(3) p by (simp add: pct_change_def fsub_def)
  have vc: "pct_change (map bar_volume bars) i =
      Fin (bar_volume (bars ! i) / bar_volume (bars ! (i - 1)) - 1)"
    using assms(1,5) i(3) p by (simp add: pct_change_def fsub_def)
  show ?thesis
    by (simp add: select_features_def row_at_def Let_def m20 m50 sd v pc vc fsub_def)
qed

lemma rising_table_finite:
  assumes "49 \<le> n"
  shows "list_all (\<lambda>r. list_all is_finite (select_features r)) (indicator_table (rising_bars n))"
proof -
  have "list_all is_finite (select_features (row_at (rising_bars n) i))"
    if "49 \<le> i" "i < n" for i
  proof (rule row_finite)
    show "i < length (rising_bars n)" using that by (simp add: rising_bars_def)
    show "49 \<le> i" by fact
    show "\<not> has_nan (row_at (rising_bars n) i)" using that by (rule rising_row_kept)
    have "i - 1 < n" using that by simp
    then show "bar_close (rising_bars n ! (i - 1)) \<noteq> 0"
      "bar_volume (rising_bars n ! (i - 1)) \<noteq> 0"
      by (simp_all add: rising_bars_def add_nonneg_eq_0_iff)
  qed
  then show ?thesis
    by (auto simp: rising_table_rows [OF assms] list_all_iff)
qed

lemma rising_table_length:
  assumes "49 \<le> n"
  shows "length (indicator_table (rising_bars n)) = n - 49"
  by (simp add: rising_table_rows [OF assms])


subsection \<open>The estimator meets a row of fourteen columns\<close>



subsection \<open>The sample library\<close>

lemma sample_table:
  assumes "symbol \<noteq> []"
  shows "160 \<le> length (indicator_table (rising_bars (208 + length symbol)))"
    and "list_all (\<lambda>r. list_all is_finite (select_features r))
           (indicator_table (rising_bars (208 + length symbol)))"
proof -
  have n: "49 \<le> 208 + length symbol" by simp
  have "1 \<le> length symbol" using assms by (cases symbol) simp_all
  then have "160 \<le> 208 + length symbol - 49" by arith
  then show "160 \<le> length (indicator_table (rising_bars (208 + length symbol)))"
    by (simp only: rising_table_length [OF n])
  show "list_all (\<lambda>r. list_all is_finite (select_features r))
           (indicator_table (rising_bars (208 + length symbol)))"
    using n by (rule rising_table_finite)
qed

lemma sample_get_new:
  assumes "data_cache s symbol = None"
  shows "get_stock_data sample_lib s symbol =
           (s\<lparr>data_cache := (data_cache s)
                 (symbol \<mapsto> indicator_table (rising_bars (208 + length symbol)))\<rparr>,
            Inr (indicator_table (rising_bars (208 + length symbol))))"
  using assms by (simp add: get_stock_data_def sample_lib_def Let_def)

lemma get_stock_data_hit:
  assumes "data_cache s symbol = Some data"
  shows "get_stock_data L s symbol = (s, Inr data)"
  using assms by (simp add: get_stock_data_def)


text \<open>
  Claim C9 (not met by the code). A call of \<open>train_model\<close> that ends in an error can
  change the artifact stored under its key. The entry holds the predictor's one scaler
  object, and \<open>prepare_data\<close> refits that object before any check is made: once
  \<open>train_model('X_linear', 'linear')\<close> has stored its entry under the key
  \<open>X_linear_linear\<close>, the call \<open>train_model('X', 'linear_linear')\<close>, which has the same
  key, fails on the model type, leaves the dict of models as it was, and leaves that
  entry with a scaler fitted on the table of X (160 rows) instead of the one it was
  trained with (167 rows). Besides, the entry is assigned before the file is written:
  when the write raises, the call reports the error and the entry has been replaced.
\<close>

theorem failed_training_changes_artifact:
  "\<exists>s1 r1 a s2 s3 a'.
     train_model sample_lib (new_predictor Map.empty) ''X_linear'' ''linear'' = (s1, Inr r1) \<and>
     models s1 ''X_linear_linear'' = Some a \<and>
     scaler_of s1 a = Some \<lparr>sc_n_features = 14, sc_state = 167\<rparr> \<and>
     train_model sample_lib s1 ''X'' ''linear_linear'' =
       (s2, Inl (ValueError ''Unsupported model type: linear_linear'')) \<and>
     models s2 ''X_linear_linear'' = Some a \<and>
     scaler_of s2 a = Some \<lparr>sc_n_features = 14, sc_state = 160\<rparr> \<and>
     train_model (sample_lib\<lparr>lib_dump := \<lambda>key. Some (LibraryError ''OSError''), lib_now := 1\<rparr>)
         s1 ''X_linear'' ''linear'' = (s3, Inl (LibraryError ''OSError'')) \<and>
     models s3 ''X_linear_linear'' = Some a' \<and>
     last_trained a = 0 \<and> last_trained a' = 1"
proof -
  let ?s0 = "new_predictor Map.empty :: (unit, nat) predictor"
  let ?L' = "sample_lib\<lparr>lib_dump := \<lambda>key. Some (LibraryError ''OSError''), lib_now := 1\<rparr>"
  let ?T8 = "indicator_table (rising_bars (208 + length ''X_linear''))"
  let ?T1 = "indicator_table (rising_bars (208 + length ''X''))"
  have s8: "''X_linear'' \<noteq> []" and s1: "''X'' \<noteq> []" by simp_all
  note T8 = sample_table [OF s8]
  note T1 = sample_table [OF s1]
  have l8: "length ?T8 = 167" and l1: "length ?T1 = 160"
    by (simp_all add: rising_table_length)
  have fit: "\<exists>m. lib_model_fit sample_lib ''linear'' Z z = Inr m" for Z z
    by (simp add: sample_lib_def)
  have fit': "\<exists>m. lib_model_fit ?L' ''linear'' Z z = Inr m" for Z z
    by (simp add: sample_lib_def)
  have k: "model_key ''X_linear'' ''linear'' = ''X_linear_linear''"
    "model_key ''X'' ''linear_linear'' = ''X_linear_linear''"
    by (simp_all add: model_key_def)
  have g0: "get_stock_data sample_lib ?s0 ''X_linear'' =
      (?s0\<lparr>data_cache := (data_cache ?s0)(''X_linear'' \<mapsto> ?T8)\<rparr>, Inr ?T8)"
    by (rule sample_get_new) (simp add: new_predictor_def)
  obtain s1 res1 a where tr1: "train_model sample_lib ?s0 ''X_linear'' ''linear'' = (s1, res1)"
    and res1: "res1 = (case lib_dump sample_lib (model_key ''X_linear'' ''linear'') of
                    Some e \<Rightarrow> Inl e
                  | None \<Rightarrow> Inr \<lparr>tr_symbol = ''X_linear'', tr_model_type = ''linear'',
                                 tr_mse = art_mse a, tr_mae = art_mae a\<rparr>)"
    and m1: "models s1 (model_key ''X_linear'' ''linear'') = Some a"
    and a: "art_scaler a = Shared" "last_trained a = lib_now sample_lib"
    and sc1: "scaler s1 = Some \<lparr>sc_n_features = 14,
        sc_state = lib_scaler_fit sample_lib (map (\<lambda>r. map the_real (select_features r)) ?T8)\<rparr>"
    and c1: "data_cache s1 =
        data_cache (?s0\<lparr>data_cache := (data_cache ?s0)(''X_linear'' \<mapsto> ?T8)\<rparr>)"
    using train_model_trains [OF g0 T8(2) T8(1) _ fit] by auto
  have r1: "res1 = Inr \<lparr>tr_symbol = ''X_linear'', tr_model_type = ''linear'',
                        tr_mse = art_mse a, tr_mae = art_mae a\<rparr>"
    using res1 by (simp add: sample_lib_def)
  have so1: "scaler_of s1 a = Some \<lparr>sc_n_features = 14, sc_state = 167\<rparr>"
    using a(1) sc1 l8 by (simp add: scaler_of_def sample_lib_def)
  have "data_cache s1 ''X'' = None" using c1 by (simp add: new_predictor_def)
  then have g1: "get_stock_data sample_lib s1 ''X'' =
      (s1\<lparr>data_cache := (data_cache s1)(''X'' \<mapsto> ?T1)\<rparr>, Inr ?T1)"
    by (rule sample_get_new)
  let ?s2 = "s1\<lparr>data_cache := (data_cache s1)(''X'' \<mapsto> ?T1),
      scaler := Some \<lparr>sc_n_features = 14,
        sc_state = lib_scaler_fit sample_lib (map (\<lambda>r. map the_real (select_features r)) ?T1)\<rparr>\<rparr>"
  have tr2: "train_model sample_lib s1 ''X'' ''linear_linear'' =
      (?s2, Inl (ValueError ''Unsupported model type: linear_linear''))"
    using train_model_unsupported [OF g1 T1(2) T1(1), where model_type = "''linear_linear''"]
    by simp
  have m2: "models ?s2 ''X_linear_linear'' = Some a" using m1 k by simp
  have so2: "scaler_of ?s2 a = Some \<lparr>sc_n_features = 14, sc_state = 160\<rparr>"
    using a(1) l1 by (simp add: scaler_of_def sample_lib_def)
  have "data_cache s1 ''X_linear'' = Some ?T8" using c1 by simp
  then have g3: "get_stock_data ?L' s1 ''X_linear'' = (s1, Inr ?T8)"
    by (rule get_stock_data_hit)
  obtain s3 res3 a' where tr3: "train_model ?L' s1 ''X_linear'' ''linear'' = (s3, res3)"
    and res3: "res3 = (case lib_dump ?L' (model_key ''X_linear'' ''linear'') of
                    Some e \<Rightarrow> Inl e
                  | None \<Rightarrow> Inr \<lparr>tr_symbol = ''X_linear'', tr_model_type = ''linear'',
                                 tr_mse = art_mse a', tr_mae = art_mae a'\<rparr>)"
    and m3: "models s3 (model_key ''X_linear'' ''linear'') = Some a'"
    and a': "last_trained a' = lib_now ?L'"
    using train_model_trains [OF g3 T8(2) T8(1) _ fit'] by auto
  have r3: "res3 = Inl (LibraryError ''OSError'')" using res3 by simp
  have "last_trained a = 0" "last_trained a' = 1"
    using a(2) a' by (simp_all add: sample_lib_def)
  then show ?thesis
    using tr1 r1 m1 k so1 tr2 m2 so2 tr3 r3 m3 by auto
qed


end
